theory Spec2Isabelle
  imports Main
begin

section \<open>The Dimension Data compute driver\<close>

text \<open>
  A shallow embedding of \<^verbatim>\<open>libcloud/compute/drivers/dimensiondata.py\<close>.
  Python exceptions are values of \<open>py_error\<close>; a method that talks to the provider
  threads the list of requests sent so far, so that "no request was sent" is a
  statement about that list.
\<close>

subsection \<open>Exceptions\<close>

datatype py_error =
    ValueError string
  | TypeError
  | IndexError
  | AttributeError
  | LibcloudError string

subsection \<open>Element trees\<close>

text \<open>
  An ElementTree element: its tag (in Clark notation \<^verbatim>\<open>{namespace}local\<close> when parsed
  from a namespaced document), its attribute dictionary, its text (\<^verbatim>\<open>None\<close> when there
  is none) and its children in document order.
\<close>

datatype xml = Element (tag: string) (attrib: "(string \<times> string) list")
  (elem_text: "string option") (children: "xml list")

text \<open>\<^verbatim>\<open>element.get(key)\<close>: the attribute's value, or \<^verbatim>\<open>None\<close>.\<close>

definition get :: "xml \<Rightarrow> string \<Rightarrow> string option" where
  "get element key = map_of (attrib element) key"

text \<open>
  ElementTree's \<^verbatim>\<open>findall(path)\<close> for a path of child steps \<^verbatim>\<open>a/b/c\<close>, given as the
  list of its steps: the elements reached by following the steps through matching
  children, in document order. \<^verbatim>\<open>find\<close> is the first of them or \<^verbatim>\<open>None\<close>;
  \<^verbatim>\<open>findtext\<close> is the text of the first (the empty string when it has no text),
  or \<^verbatim>\<open>None\<close> when nothing matches.
\<close>

fun ET_findall :: "string list \<Rightarrow> xml \<Rightarrow> xml list" where
  "ET_findall [] element = [element]"
| "ET_findall (step # steps) element =
     concat (map (ET_findall steps) (filter (\<lambda>c. tag c = step) (children element)))"

definition ET_find :: "string list \<Rightarrow> xml \<Rightarrow> xml option" where
  "ET_find path element =
     (case ET_findall path element of [] \<Rightarrow> None | e # _ \<Rightarrow> Some e)"

definition ET_findtext :: "string list \<Rightarrow> xml \<Rightarrow> string option" where
  "ET_findtext path element =
     (case ET_find path element of
        None \<Rightarrow> None
      | Some e \<Rightarrow> Some (case elem_text e of None \<Rightarrow> [] | Some t \<Rightarrow> t))"

text \<open>\<^verbatim>\<open>str.split(sep)\<close> for a one-character separator.\<close>

fun split :: "char \<Rightarrow> string \<Rightarrow> string list" where
  "split sep [] = [[]]"
| "split sep (c # cs) =
     (if c = sep then [] # split sep cs
      else (case split sep cs of
              [] \<Rightarrow> [[c]]
            | w # ws \<Rightarrow> (c # w) # ws))"

text \<open>
  Modelled from the spec: \<^verbatim>\<open>fixxpath\<close>, \<^verbatim>\<open>findtext\<close> and \<^verbatim>\<open>findall\<close> of
  \<^verbatim>\<open>libcloud.utils.xml\<close>, which are not part of the driver's file (the spec's
  "namespaced element lookup, text extraction, and subtree iteration").
  \<^verbatim>\<open>fixxpath\<close> qualifies every step of the path with the namespace, and leaves the path
  alone when there is no namespace; the path it joins with \<^verbatim>\<open>/\<close> for ElementTree is
  kept here as the list of its steps.
\<close>

definition fixxpath :: "string \<Rightarrow> string \<Rightarrow> string list" where
  "fixxpath xpath namespace =
     (if namespace = [] then split (CHR ''/'') xpath
      else map (\<lambda>e. ''{'' @ namespace @ ''}'' @ e) (split (CHR ''/'') xpath))"

definition findtext :: "xml \<Rightarrow> string \<Rightarrow> string \<Rightarrow> string option" where
  "findtext element xpath namespace = ET_findtext (fixxpath xpath namespace) element"

definition findall :: "xml \<Rightarrow> string \<Rightarrow> string \<Rightarrow> xml list" where
  "findall element xpath namespace = ET_findall (fixxpath xpath namespace) element"

subsection \<open>The connection\<close>

text \<open>
  The three request methods of \<^verbatim>\<open>DimensionDataConnection\<close> the driver calls, and what
  it passes to them. \<^verbatim>\<open>data\<close> is the element the driver hands to \<^verbatim>\<open>ET.tostring\<close>;
  the serialisation itself belongs to the XML library.
\<close>

datatype api = request_api_1 | request_with_orgId_api_1 | request_with_orgId_api_2

record request =
  req_api :: api
  req_action :: string
  req_method :: string
  req_params :: "(string \<times> string) list"
  req_data :: "xml option"

text \<open>
  The transport is the external collaborator: given the requests already sent and a
  new one, it answers with the parsed document (\<^verbatim>\<open>.object\<close>) or raises.
\<close>

type_synonym transport = "request list \<Rightarrow> request \<Rightarrow> py_error + xml"

text \<open>A driver method: from the requests sent so far to its result and the requests sent after it.\<close>

type_synonym 'a io = "request list \<Rightarrow> (py_error + 'a) \<times> request list"

definition return :: "'a \<Rightarrow> 'a io" where
  "return x = (\<lambda>sent. (Inr x, sent))"

definition raise :: "py_error \<Rightarrow> 'a io" where
  "raise e = (\<lambda>sent. (Inl e, sent))"

definition bind :: "'a io \<Rightarrow> ('a \<Rightarrow> 'b io) \<Rightarrow> 'b io" where
  "bind m f = (\<lambda>sent. case m sent of
                         (Inl e, sent') \<Rightarrow> (Inl e, sent')
                       | (Inr x, sent') \<Rightarrow> f x sent')"

definition lift :: "py_error + 'a \<Rightarrow> 'a io" where
  "lift r = (case r of Inl e \<Rightarrow> raise e | Inr x \<Rightarrow> return x)"

definition send :: "transport \<Rightarrow> request \<Rightarrow> xml io" where
  "send conn r = (\<lambda>sent. (conn sent r, sent @ [r]))"

text \<open>
  An attribute whose value is \<^verbatim>\<open>None\<close> cannot be serialised: lxml's \<^verbatim>\<open>Element\<close>
  raises \<^verbatim>\<open>TypeError\<close> when it is built, ElementTree's \<^verbatim>\<open>tostring\<close> when it is
  written; both before the request leaves.
\<close>

definition attr_value :: "string option \<Rightarrow> py_error + string" where
  "attr_value v = (case v of None \<Rightarrow> Inl TypeError | Some s \<Rightarrow> Inr s)"

text \<open>Sequencing of a computation that may raise.\<close>

definition and_then :: "py_error + 'a \<Rightarrow> ('a \<Rightarrow> py_error + 'b) \<Rightarrow> py_error + 'b" where
  "and_then r f = (case r of Inl e \<Rightarrow> Inl e | Inr x \<Rightarrow> f x)"

text \<open>
  \<^verbatim>\<open>element.find(path).get(key)\<close>: \<^verbatim>\<open>find\<close> returns \<^verbatim>\<open>None\<close> when nothing matches,
  and \<^verbatim>\<open>None.get\<close> raises \<^verbatim>\<open>AttributeError\<close>.
\<close>

definition find_get :: "xml option \<Rightarrow> string \<Rightarrow> py_error + string option" where
  "find_get found key =
     (case found of None \<Rightarrow> Inl AttributeError | Some e \<Rightarrow> Inr (get e key))"

text \<open>
  Python's built-in \<^verbatim>\<open>int(x)\<close> on the result of \<^verbatim>\<open>findtext\<close>. \<^verbatim>\<open>int(None)\<close>
  raises \<^verbatim>\<open>TypeError\<close>. Every interpreter reads a string of ASCII characters made of
  an optional sign and one or more decimal digits, with whitespace around it, as that
  number (\<open>ascii_int\<close>), and refuses the empty string. What it makes of any other
  string (digit separators, non-ASCII digits and whitespace, a blank after the sign)
  differs between interpreters and is the parameter \<open>interpreter_int\<close>, consulted
  for those strings only; where that too refuses, \<^verbatim>\<open>ValueError\<close> is raised.
\<close>

definition is_space :: "char \<Rightarrow> bool" where
  "is_space c = (c \<in> set [CHR '' '', CHR 0x09, CHR 0x0A, CHR 0x0B, CHR 0x0C, CHR 0x0D])"

definition strip :: "string \<Rightarrow> string" where
  "strip s = rev (dropWhile is_space (rev (dropWhile is_space s)))"

definition digit :: "char \<Rightarrow> nat option" where
  "digit c = map_of (zip ''0123456789'' [0, 1, 2, 3, 4, 5, 6, 7, 8, 9]) c"

fun digits :: "nat \<Rightarrow> string \<Rightarrow> nat option" where
  "digits acc [] = Some acc"
| "digits acc (c # cs) =
     (case digit c of None \<Rightarrow> None | Some d \<Rightarrow> digits (10 * acc + d) cs)"

definition unsigned :: "string \<Rightarrow> nat option" where
  "unsigned s = (if s = [] then None else digits 0 s)"

definition ascii_int :: "string \<Rightarrow> int option" where
  "ascii_int s =
     (case strip s of
        [] \<Rightarrow> None
      | c # cs \<Rightarrow>
          if c = CHR ''-'' then map_option (\<lambda>n. - int n) (unsigned cs)
          else if c = CHR ''+'' then map_option int (unsigned cs)
          else map_option int (unsigned (c # cs)))"

definition int_of_str :: "(string \<Rightarrow> int option) \<Rightarrow> string \<Rightarrow> int option" where
  "int_of_str interpreter_int s =
     (case ascii_int s of
        Some i \<Rightarrow> Some i
      | None \<Rightarrow> if s = [] then None else interpreter_int s)"

definition py_int :: "(string \<Rightarrow> int option) \<Rightarrow> string option \<Rightarrow> py_error + int" where
  "py_int interpreter_int x =
     (case x of
        None \<Rightarrow> Inl TypeError
      | Some s \<Rightarrow>
          (case int_of_str interpreter_int s of
             None \<Rightarrow> Inl (ValueError ''invalid literal for int()'')
           | Some i \<Rightarrow> Inr i))"

text \<open>\<^verbatim>\<open>'%s' % x\<close> and \<^verbatim>\<open>str(x)\<close> for a string or \<^verbatim>\<open>None\<close>.\<close>

definition str :: "string option \<Rightarrow> string" where
  "str x = (case x of None \<Rightarrow> ''None'' | Some s \<Rightarrow> s)"

subsection \<open>The entities\<close>

text \<open>
  \<^verbatim>\<open>NodeState\<close> of \<^verbatim>\<open>libcloud.compute.types\<close>. The classes below are declared in
  \<^verbatim>\<open>libcloud.compute.base\<close> and \<^verbatim>\<open>libcloud.common.dimensiondata\<close>; their fields
  are the keyword arguments the driver constructs them with. The back reference
  \<^verbatim>\<open>driver\<close> is left out. A field read from a document is \<^verbatim>\<open>None\<close> when the
  document lacks it. The constructors of the base classes normalise the id they are
  given: \<^verbatim>\<open>NodeLocation\<close> and \<^verbatim>\<open>NodeImage\<close> store \<^verbatim>\<open>str(id)\<close>, \<^verbatim>\<open>Node\<close> stores
  \<^verbatim>\<open>str(id) if id else None\<close>.
\<close>

datatype NodeState = RUNNING | REBOOTING | TERMINATED | PENDING | UNKNOWN

record DimensionDataStatus =
  action :: "string option"
  request_time :: "string option"
  user_name :: "string option"
  number_of_steps :: "string option"
  step_name :: "string option"
  step_number :: "string option"
  step_percent_complete :: "string option"
  failure_reason :: "string option"

record NodeLocation =
  location_id :: string
  location_name :: "string option"
  location_country :: "string option"

record node_extra =
  description :: "string option"
  sourceImageId :: "string option"
  networkId :: "string option"
  networkDomainId :: "string option"
  datacenterId :: "string option"
  deployedTime :: "string option"
  cpuCount :: int
  memoryMb :: int
  OS_id :: "string option"
  OS_type :: "string option"
  OS_displayName :: "string option"
  status :: DimensionDataStatus
  password :: "string option"

record Node =
  node_id :: "string option"
  node_name :: "string option"
  state :: NodeState
  public_ips :: "string list"
  private_ips :: "string list"
  extra :: node_extra

record image_extra =
  image_description :: "string option"
  image_OS_type :: "string option"
  image_OS_displayName :: "string option"
  image_cpuCount :: "string option"
  image_resourcePath :: "string option"
  image_memory :: "string option"
  image_osStorage :: "string option"
  image_additionalStorage :: "string option"
  image_created :: "string option"
  image_location :: NodeLocation

record NodeImage =
  image_id :: string
  image_name :: string
  image_extra :: image_extra

record DimensionDataNetwork =
  network_id :: "string option"
  network_name :: "string option"
  network_description :: "string option"
  network_location :: NodeLocation
  network_private_net :: "string option"
  network_multicast :: bool
  network_status :: DimensionDataStatus

record DimensionDataNetworkDomain =
  domain_id :: "string option"
  domain_name :: "string option"
  domain_description :: "string option"
  domain_location :: NodeLocation
  domain_status :: DimensionDataStatus

record DimensionDataVlan =
  vlan_id :: "string option"
  vlan_name :: "string option"
  vlan_description :: "string option"
  vlan_location :: NodeLocation
  vlan_status :: DimensionDataStatus

text \<open>The three constructors, with the ids as they store them.\<close>

definition new_NodeLocation :: "string option \<Rightarrow> string option \<Rightarrow> string option \<Rightarrow> NodeLocation" where
  "new_NodeLocation ident name country =
     \<lparr>location_id = str ident, location_name = name, location_country = country\<rparr>"

definition new_NodeImage :: "string option \<Rightarrow> string \<Rightarrow> image_extra \<Rightarrow> NodeImage" where
  "new_NodeImage ident name extra' =
     \<lparr>image_id = str ident, image_name = name, image_extra = extra'\<rparr>"

definition new_Node ::
  "string option \<Rightarrow> string option \<Rightarrow> NodeState \<Rightarrow> string list \<Rightarrow> string list \<Rightarrow> node_extra \<Rightarrow> Node" where
  "new_Node ident name state' public_ips' private_ips' extra' =
     \<lparr>node_id = (case ident of
                    None \<Rightarrow> None
                  | Some i \<Rightarrow> if i = [] then None else Some i),
      node_name = name, state = state',
      public_ips = (if public_ips' = [] then [] else public_ips'),
      private_ips = (if private_ips' = [] then [] else private_ips'),
      extra = extra'\<rparr>"

subsection \<open>The entity mappers\<close>

text \<open>
  Modelled from the spec: the constructor \<^verbatim>\<open>DimensionDataStatus()\<close> without arguments,
  declared outside the driver's file ("absence of a status sub-element yields an
  empty/default Status").
\<close>

definition default_status :: DimensionDataStatus where
  "default_status =
     \<lparr>action = None, request_time = None, user_name = None, number_of_steps = None,
      step_name = None, step_number = None, step_percent_complete = None,
      failure_reason = None\<rparr>"

definition to_status :: "string \<Rightarrow> xml option \<Rightarrow> DimensionDataStatus" where
  "to_status TYPES_URN element =
     (case element of
        None \<Rightarrow> default_status
      | Some el \<Rightarrow>
          \<lparr>action = findtext el ''action'' TYPES_URN,
           request_time = findtext el ''requestTime'' TYPES_URN,
           user_name = findtext el ''userName'' TYPES_URN,
           number_of_steps = findtext el ''numberOfSteps'' TYPES_URN,
           step_name = findtext el ''step/name'' TYPES_URN,
           step_number = findtext el ''step_number'' TYPES_URN,
           step_percent_complete = findtext el ''step/percentComplete'' TYPES_URN,
           failure_reason = findtext el ''failureReason'' TYPES_URN\<rparr>)"

definition to_location :: "string \<Rightarrow> xml \<Rightarrow> NodeLocation" where
  "to_location TYPES_URN element =
     new_NodeLocation (get element ''id'')
       (findtext element ''displayName'' TYPES_URN)
       (findtext element ''country'' TYPES_URN)"

definition to_locations :: "string \<Rightarrow> xml \<Rightarrow> NodeLocation list" where
  "to_locations TYPES_URN object =
     map (to_location TYPES_URN) (ET_findall (fixxpath ''datacenter'' TYPES_URN) object)"

text \<open>
  The private address of a server element: the one conditional expression of
  \<^verbatim>\<open>_to_node\<close> that picks the shape to read.
\<close>

definition private_ip :: "string \<Rightarrow> xml \<Rightarrow> bool \<Rightarrow> py_error + string option" where
  "private_ip TYPES_URN element has_network_info =
     (if has_network_info
      then find_get (ET_find (fixxpath ''networkInfo/primaryNic'' TYPES_URN) element)
             ''privateIpv4''
      else find_get (ET_find (fixxpath ''nic'' TYPES_URN) element) ''privateIpv4'')"

definition to_node :: "string \<Rightarrow> (string \<Rightarrow> int option) \<Rightarrow> xml \<Rightarrow> py_error + Node" where
  "to_node TYPES_URN interpreter_int element =
     (let state = (if findtext element ''started'' TYPES_URN = Some ''true''
                   then RUNNING else TERMINATED);
          status = to_status TYPES_URN (ET_find (fixxpath ''progress'' TYPES_URN) element);
          has_network_info = (ET_find (fixxpath ''networkInfo'' TYPES_URN) element \<noteq> None)
      in
      and_then (if has_network_info
                then find_get (ET_find (fixxpath ''networkInfo'' TYPES_URN) element)
                       ''networkDomainId''
                else Inr None) (\<lambda>network_domain_id.
      and_then (py_int interpreter_int (findtext element ''cpuCount'' TYPES_URN)) (\<lambda>cpu_count.
      and_then (py_int interpreter_int (findtext element ''memoryGb'' TYPES_URN)) (\<lambda>memory_gb.
      and_then (find_get (ET_find (fixxpath ''operatingSystem'' TYPES_URN) element) ''id'')
        (\<lambda>os_id.
      and_then (find_get (ET_find (fixxpath ''operatingSystem'' TYPES_URN) element) ''family'')
        (\<lambda>os_type.
      and_then (find_get (ET_find (fixxpath ''operatingSystem'' TYPES_URN) element)
                  ''displayName'') (\<lambda>os_display_name.
      let extra = \<lparr>description = findtext element ''description'' TYPES_URN,
                   sourceImageId = findtext element ''sourceImageId'' TYPES_URN,
                   networkId = findtext element ''networkId'' TYPES_URN,
                   networkDomainId = network_domain_id,
                   datacenterId = get element ''datacenterId'',
                   deployedTime = findtext element ''createTime'' TYPES_URN,
                   cpuCount = cpu_count,
                   memoryMb = memory_gb * 1024,
                   OS_id = os_id,
                   OS_type = os_type,
                   OS_displayName = os_display_name,
                   status = status,
                   password = None\<rparr>;
          public_ip = findtext element ''publicIpAddress'' TYPES_URN
      in
      and_then (private_ip TYPES_URN element has_network_info) (\<lambda>private_ip.
      Inr (new_Node (get element ''id'')
             (findtext element ''name'' TYPES_URN)
             state
             (case public_ip of None \<Rightarrow> [] | Some ip \<Rightarrow> [ip])
             (case private_ip of None \<Rightarrow> [] | Some ip \<Rightarrow> [ip])
             extra)))))))))"

text \<open>
  The lookup every mapper that embeds a location performs, and
  \<^verbatim>\<open>ex_get_location_by_id\<close> too:
  \<^verbatim>\<open>list(filter(lambda x: x.id == location_id, locations))[0]\<close>.
  Indexing the empty list raises \<^verbatim>\<open>IndexError\<close>. The id of a location is a
  string; the identifier looked for is a string or \<^verbatim>\<open>None\<close>, which equals no string.
\<close>

definition filter_first :: "string option \<Rightarrow> NodeLocation list \<Rightarrow> py_error + NodeLocation" where
  "filter_first loc_id locations =
     (case filter (\<lambda>x. Some (location_id x) = loc_id) locations of
        [] \<Rightarrow> Inl IndexError
      | l # _ \<Rightarrow> Inr l)"

definition to_base_image :: "string \<Rightarrow> xml \<Rightarrow> NodeLocation list \<Rightarrow> py_error + NodeImage" where
  "to_base_image SERVER_NS element locations =
     and_then (filter_first (get element ''location'') locations) (\<lambda>location.
     Inr (new_NodeImage (get element ''id'')
            (str (findtext element ''name'' SERVER_NS))
            \<lparr>image_description = findtext element ''description'' SERVER_NS,
             image_OS_type = findtext element ''operatingSystem/type'' SERVER_NS,
             image_OS_displayName = findtext element ''operatingSystem/displayName'' SERVER_NS,
             image_cpuCount = findtext element ''cpuCount'' SERVER_NS,
             image_resourcePath = findtext element ''resourcePath'' SERVER_NS,
             image_memory = findtext element ''memory'' SERVER_NS,
             image_osStorage = findtext element ''osStorage'' SERVER_NS,
             image_additionalStorage = findtext element ''additionalStorage'' SERVER_NS,
             image_created = findtext element ''created'' SERVER_NS,
             image_location = location\<rparr>))"

subsection \<open>Construction\<close>

text \<open>
  The driver object. \<^verbatim>\<open>API_ENDPOINTS\<close>, the table of regional endpoints, is declared
  in \<^verbatim>\<open>libcloud.common.dimensiondata\<close> and is a parameter here, as is the
  constructor of the base class \<^verbatim>\<open>NodeDriver\<close>, which \<^verbatim>\<open>__init__\<close> calls last.
\<close>

record 'e driver =
  key :: string
  secret :: "string option"
  secure :: bool
  host :: "string option"
  port :: "nat option"
  api_version :: "string option"
  region :: string
  selected_region :: 'e

definition init ::
  "(string \<rightharpoonup> 'e) \<Rightarrow> ('e driver \<Rightarrow> 'e driver io) \<Rightarrow> string \<Rightarrow> string option \<Rightarrow> bool \<Rightarrow>
   string option \<Rightarrow> nat option \<Rightarrow> string option \<Rightarrow> string \<Rightarrow> 'e driver io" where
  "init API_ENDPOINTS NodeDriver_init key' secret' secure' host' port' api_version' region' =
     (case API_ENDPOINTS region' of
        None \<Rightarrow> raise (ValueError (''Invalid region: '' @ region'))
      | Some endpoint \<Rightarrow>
          NodeDriver_init
            \<lparr>key = key', secret = secret', secure = secure', host = host', port = port',
             api_version = api_version', region = region', selected_region = endpoint\<rparr>)"

subsection \<open>Locations and nodes by id\<close>

definition list_locations :: "string \<Rightarrow> transport \<Rightarrow> NodeLocation list io" where
  "list_locations TYPES_URN conn =
     bind (send conn \<lparr>req_api = request_with_orgId_api_2,
                      req_action = ''infrastructure/datacenter'',
                      req_method = ''GET'', req_params = [], req_data = None\<rparr>)
       (\<lambda>object. return (to_locations TYPES_URN object))"

definition ex_get_location_by_id ::
  "string \<Rightarrow> transport \<Rightarrow> string option \<Rightarrow> NodeLocation option io" where
  "ex_get_location_by_id TYPES_URN conn ident =
     (case ident of
        None \<Rightarrow> return None
      | Some i \<Rightarrow>
          bind (list_locations TYPES_URN conn) (\<lambda>locations.
          bind (lift (filter_first (Some i) locations)) (\<lambda>location.
          return (Some location))))"

definition ex_get_node_by_id ::
  "string \<Rightarrow> (string \<Rightarrow> int option) \<Rightarrow> transport \<Rightarrow> string option \<Rightarrow> Node io" where
  "ex_get_node_by_id TYPES_URN interpreter_int conn ident =
     bind (send conn \<lparr>req_api = request_with_orgId_api_2,
                      req_action = ''server/server/'' @ str ident,
                      req_method = ''GET'', req_params = [], req_data = None\<rparr>)
       (\<lambda>node. lift (to_node TYPES_URN interpreter_int node))"

subsection \<open>Lifecycle actions\<close>

definition destroy_node :: "string \<Rightarrow> transport \<Rightarrow> Node \<Rightarrow> bool io" where
  "destroy_node TYPES_URN conn node =
     bind (lift (attr_value (node_id node))) (\<lambda>ident.
     bind (send conn \<lparr>req_api = request_with_orgId_api_2,
                      req_action = ''server/deleteServer'',
                      req_method = ''POST'', req_params = [],
                      req_data = Some (Element ''deleteServer''
                                   [(''xmlns'', TYPES_URN), (''id'', ident)] None [])\<rparr>)
       (\<lambda>body. let result = findtext body ''responseCode'' TYPES_URN
               in return (result = Some ''IN_PROGRESS'')))"

definition reboot_node :: "string \<Rightarrow> transport \<Rightarrow> Node \<Rightarrow> bool io" where
  "reboot_node TYPES_URN conn node =
     bind (lift (attr_value (node_id node))) (\<lambda>ident.
     bind (send conn \<lparr>req_api = request_with_orgId_api_2,
                      req_action = ''server/rebootServer'',
                      req_method = ''POST'', req_params = [],
                      req_data = Some (Element ''rebootServer''
                                   [(''xmlns'', TYPES_URN), (''id'', ident)] None [])\<rparr>)
       (\<lambda>body. let result = findtext body ''responseCode'' TYPES_URN
               in return (result = Some ''IN_PROGRESS'')))"

definition ex_start_node :: "string \<Rightarrow> transport \<Rightarrow> Node \<Rightarrow> bool io" where
  "ex_start_node TYPES_URN conn node =
     bind (lift (attr_value (node_id node))) (\<lambda>ident.
     bind (send conn \<lparr>req_api = request_with_orgId_api_2,
                      req_action = ''server/startServer'',
                      req_method = ''POST'', req_params = [],
                      req_data = Some (Element ''startServer''
                                   [(''xmlns'', TYPES_URN), (''id'', ident)] None [])\<rparr>)
       (\<lambda>body. let result = findtext body ''responseCode'' TYPES_URN
               in return (result = Some ''IN_PROGRESS'')))"

definition ex_shutdown_graceful :: "string \<Rightarrow> transport \<Rightarrow> Node \<Rightarrow> bool io" where
  "ex_shutdown_graceful TYPES_URN conn node =
     bind (lift (attr_value (node_id node))) (\<lambda>ident.
     bind (send conn \<lparr>req_api = request_with_orgId_api_2,
                      req_action = ''server/shutdownServer'',
                      req_method = ''POST'', req_params = [],
                      req_data = Some (Element ''shutdownServer''
                                   [(''xmlns'', TYPES_URN), (''id'', ident)] None [])\<rparr>)
       (\<lambda>body. let result = findtext body ''responseCode'' TYPES_URN
               in return (result = Some ''IN_PROGRESS'')))"

definition ex_power_off :: "string \<Rightarrow> transport \<Rightarrow> Node \<Rightarrow> bool io" where
  "ex_power_off TYPES_URN conn node =
     bind (lift (attr_value (node_id node))) (\<lambda>ident.
     bind (send conn \<lparr>req_api = request_with_orgId_api_2,
                      req_action = ''server/powerOffServer'',
                      req_method = ''POST'', req_params = [],
                      req_data = Some (Element ''powerOffServer''
                                   [(''xmlns'', TYPES_URN), (''id'', ident)] None [])\<rparr>)
       (\<lambda>body. let result = findtext body ''responseCode'' TYPES_URN
               in return (result = Some ''IN_PROGRESS'')))"

definition ex_reset :: "string \<Rightarrow> transport \<Rightarrow> Node \<Rightarrow> bool io" where
  "ex_reset TYPES_URN conn node =
     bind (lift (attr_value (node_id node))) (\<lambda>ident.
     bind (send conn \<lparr>req_api = request_with_orgId_api_2,
                      req_action = ''server/resetServer'',
                      req_method = ''POST'', req_params = [],
                      req_data = Some (Element ''resetServer''
                                   [(''xmlns'', TYPES_URN), (''id'', ident)] None [])\<rparr>)
       (\<lambda>body. let result = findtext body ''responseCode'' TYPES_URN
               in return (result = Some ''IN_PROGRESS'')))"

subsection \<open>Deploying a server\<close>

text \<open>
  What a caller may pass for \<^verbatim>\<open>ex_network\<close>, \<^verbatim>\<open>ex_network_domain\<close> and
  \<^verbatim>\<open>ex_vlan\<close>: \<^verbatim>\<open>None\<close>, an instance of one of the three classes, or any other
  object, of which only its \<^verbatim>\<open>id\<close> attribute matters (\<open>None\<close> here when the
  object has no such attribute).
\<close>

datatype pyobj =
    PyNone
  | Network DimensionDataNetwork
  | NetworkDomain DimensionDataNetworkDomain
  | Vlan DimensionDataVlan
  | Object "string option"

fun isinstance_DimensionDataNetwork :: "pyobj \<Rightarrow> bool" where
  "isinstance_DimensionDataNetwork (Network n) = True"
| "isinstance_DimensionDataNetwork x = False"

fun isinstance_DimensionDataNetworkDomain :: "pyobj \<Rightarrow> bool" where
  "isinstance_DimensionDataNetworkDomain (NetworkDomain d) = True"
| "isinstance_DimensionDataNetworkDomain x = False"

text \<open>The attribute access \<^verbatim>\<open>x.id\<close>.\<close>

fun obj_id :: "pyobj \<Rightarrow> py_error + string option" where
  "obj_id PyNone = Inl AttributeError"
| "obj_id (Network n) = Inr (network_id n)"
| "obj_id (NetworkDomain d) = Inr (domain_id d)"
| "obj_id (Vlan v) = Inr (vlan_id v)"
| "obj_id (Object None) = Inl AttributeError"
| "obj_id (Object (Some i)) = Inr (Some i)"

text \<open>
  The credential \<^verbatim>\<open>_get_and_check_auth\<close> of the base class returns for this driver,
  whose features are \<^verbatim>\<open>{'create_node': ['password']}\<close>.
\<close>

record NodeAuthPassword =
  auth_password :: string
  generated :: bool

text \<open>\<^verbatim>\<open>str(b).lower()\<close> for a boolean.\<close>

definition str_bool :: "bool \<Rightarrow> string" where
  "str_bool b = (if b then ''True'' else ''False'')"

definition lower_char :: "char \<Rightarrow> char" where
  "lower_char c =
     (case map_of (zip ''ABCDEFGHIJKLMNOPQRSTUVWXYZ'' ''abcdefghijklmnopqrstuvwxyz'') c of
        None \<Rightarrow> c
      | Some l \<Rightarrow> l)"

definition lower :: "string \<Rightarrow> string" where
  "lower s = map lower_char s"

text \<open>
  The request document of \<^verbatim>\<open>create_node\<close> (its lines from
  \<^verbatim>\<open>ET.Element('deployServer', ...)\<close> to the \<^verbatim>\<open>vlanId\<close> element).
\<close>

definition deployServer ::
  "string \<Rightarrow> string \<Rightarrow> string \<Rightarrow> NodeImage \<Rightarrow> string \<Rightarrow> pyobj \<Rightarrow> pyobj \<Rightarrow> pyobj \<Rightarrow> bool \<Rightarrow>
   py_error + xml" where
  "deployServer TYPES_URN name ex_description image' password' ex_network ex_network_domain
     ex_vlan ex_is_started =
     and_then
       (if ex_network \<noteq> PyNone
        then and_then (obj_id ex_network) (\<lambda>network.
               Inr [Element ''network'' [] None [Element ''networkId'' [] network []]])
        else Inr []) (\<lambda>network_elm.
     and_then
       (if ex_network_domain \<noteq> PyNone
        then and_then (obj_id ex_network_domain) (\<lambda>domain.
             and_then (attr_value domain) (\<lambda>domain.
             and_then (obj_id ex_vlan) (\<lambda>vlan.
               Inr [Element ''networkInfo'' [(''networkDomainId'', domain)] None
                      [Element ''primaryNic'' [] None [Element ''vlanId'' [] vlan []]]])))
        else Inr []) (\<lambda>network_inf_elm.
     Inr (Element ''deployServer'' [(''xmlns'', TYPES_URN)] None
            ([Element ''name'' [] (Some name) [],
              Element ''description'' [] (Some ex_description) [],
              Element ''imageId'' [] (Some (image_id image')) [],
              Element ''start'' [] (Some (lower (str_bool ex_is_started))) [],
              Element ''administratorPassword'' [] (Some password') []]
             @ network_elm @ network_inf_elm))))"

text \<open>The loop over the \<^verbatim>\<open>info\<close> elements of the response: the last \<^verbatim>\<open>serverId\<close> wins.\<close>

definition server_id :: "string \<Rightarrow> xml \<Rightarrow> string option" where
  "server_id TYPES_URN response =
     foldl (\<lambda>ident info. if get info ''name'' = Some ''serverId'' then get info ''value''
                           else ident)
       None (findall response ''info'' TYPES_URN)"

definition create_node ::
  "string \<Rightarrow> (string \<Rightarrow> int option) \<Rightarrow> ('auth \<Rightarrow> py_error + NodeAuthPassword) \<Rightarrow> transport \<Rightarrow>
   string \<Rightarrow> NodeImage \<Rightarrow> 'auth \<Rightarrow> string \<Rightarrow> pyobj \<Rightarrow> pyobj \<Rightarrow> pyobj \<Rightarrow> bool \<Rightarrow> Node io" where
  "create_node TYPES_URN interpreter_int get_and_check_auth conn name image' auth
     ex_description ex_network
     ex_network_domain ex_vlan ex_is_started =
     bind (lift (get_and_check_auth auth)) (\<lambda>auth_obj.
     if \<not> isinstance_DimensionDataNetwork ex_network \<and>
        \<not> isinstance_DimensionDataNetworkDomain ex_network_domain
     then raise (ValueError (''ex_network must be of DimensionDataNetwork '' @
                             ''type or ex_network_domain must be of '' @
                             ''DimensionDataNetworkDomain type''))
     else
       bind (lift (deployServer TYPES_URN name ex_description image' (auth_password auth_obj)
                     ex_network ex_network_domain ex_vlan ex_is_started)) (\<lambda>server_elm.
       bind (send conn \<lparr>req_api = request_with_orgId_api_2,
                        req_action = ''server/deployServer'',
                        req_method = ''POST'', req_params = [],
                        req_data = Some server_elm\<rparr>) (\<lambda>response.
       bind (ex_get_node_by_id TYPES_URN interpreter_int conn (server_id TYPES_URN response)) (\<lambda>node.
       return (if generated auth_obj
               then node\<lparr>extra := (extra node)\<lparr>password := Some (auth_password auth_obj)\<rparr>\<rparr>
               else node)))))"

subsection \<open>The specification's vocabulary\<close>

text \<open>The tag of a namespaced element, in Clark notation.\<close>

definition clark :: "string \<Rightarrow> string \<Rightarrow> string" where
  "clark namespace lname = (if namespace = [] then lname else ''{'' @ namespace @ ''}'' @ lname)"

text \<open>
  The specification's response code: the text of the response document's
  \<^verbatim>\<open>responseCode\<close> field, that is of the first child of the document's root with
  that name; absent when there is no such child.
\<close>

definition spec_response_code :: "string \<Rightarrow> xml \<Rightarrow> string option" where
  "spec_response_code TYPES_URN body =
     (case List.find (\<lambda>c. tag c = clark TYPES_URN ''responseCode'') (children body) of
        None \<Rightarrow> None
      | Some c \<Rightarrow> elem_text c)"

text \<open>
  The specification's request of a simple action: posted to \<^verbatim>\<open>server/{action}\<close>, "a
  single empty element carrying the namespace and the target node id as an attribute".
\<close>

definition spec_simple_request :: "string \<Rightarrow> string \<Rightarrow> string \<Rightarrow> request" where
  "spec_simple_request TYPES_URN action_name ident =
     \<lparr>req_api = request_with_orgId_api_2, req_action = ''server/'' @ action_name,
      req_method = ''POST'', req_params = [],
      req_data = Some (Element action_name [(''xmlns'', TYPES_URN), (''id'', ident)] None [])\<rparr>"

text \<open>
  The specification's deploy request (posted to \<^verbatim>\<open>server/deployServer\<close>) and its
  request for one node (\<^verbatim>\<open>server/server/{id}\<close>).
\<close>

definition spec_deploy_request :: "xml \<Rightarrow> request" where
  "spec_deploy_request server_elm =
     \<lparr>req_api = request_with_orgId_api_2, req_action = ''server/deployServer'',
      req_method = ''POST'', req_params = [], req_data = Some server_elm\<rparr>"

definition spec_get_node_request :: "string option \<Rightarrow> request" where
  "spec_get_node_request ident =
     \<lparr>req_api = request_with_orgId_api_2, req_action = ''server/server/'' @ str ident,
      req_method = ''GET'', req_params = [], req_data = None\<rparr>"

text \<open>
  The specification's new server id: \<^verbatim>\<open>info[@name="serverId"]/@value\<close> of the
  response, read from the last such element when there are several.
\<close>

definition spec_server_id :: "string \<Rightarrow> xml \<Rightarrow> string option" where
  "spec_server_id TYPES_URN response =
     (case filter (\<lambda>info. get info ''name'' = Some ''serverId'')
             (filter (\<lambda>c. tag c = clark TYPES_URN ''info'') (children response)) of
        [] \<Rightarrow> None
      | infos \<Rightarrow> get (last infos) ''value'')"

text \<open>The message of the argument error of \<^verbatim>\<open>create_node\<close>.\<close>

definition invalid_network_message :: string where
  "invalid_network_message =
     ''ex_network must be of DimensionDataNetwork type or ex_network_domain must be of DimensionDataNetworkDomain type''"

text \<open>
  The specification's text field of an element: the text of its first child of that
  name; absent when there is no such child or the child has no text.
\<close>

definition spec_field :: "string \<Rightarrow> string \<Rightarrow> xml \<Rightarrow> string option" where
  "spec_field namespace lname element =
     (case List.find (\<lambda>c. tag c = clark namespace lname) (children element) of
        None \<Rightarrow> None
      | Some c \<Rightarrow> elem_text c)"

text \<open>
  The decimal numeral of a natural number: the text a document carries for a count or
  a size.
\<close>

definition digit_char :: "nat \<Rightarrow> char" where
  "digit_char d = ''0123456789'' ! d"

fun spec_decimal :: "nat \<Rightarrow> string" where
  "spec_decimal n =
     (if n < 10 then [digit_char n] else spec_decimal (n div 10) @ [digit_char (n mod 10)])"

declare spec_decimal.simps [simp del]

text \<open>The specification's request for the locations: \<^verbatim>\<open>infrastructure/datacenter\<close>.\<close>

definition spec_list_locations_request :: request where
  "spec_list_locations_request =
     \<lparr>req_api = request_with_orgId_api_2, req_action = ''infrastructure/datacenter'',
      req_method = ''GET'', req_params = [], req_data = None\<rparr>"

subsection \<open>Sample documents\<close>

definition sample_node :: Node where
  "sample_node =
     \<lparr>node_id = Some ''SRV1'', node_name = Some ''web1'', state = RUNNING,
      public_ips = [], private_ips = [''10.0.0.1''],
      extra = \<lparr>description = None, sourceImageId = None, networkId = None,
               networkDomainId = None, datacenterId = Some ''NA1'', deployedTime = None,
               cpuCount = 2, memoryMb = 4096, OS_id = None, OS_type = None,
               OS_displayName = None, status = default_status, password = None\<rparr>\<rparr>"

definition sample_response :: "string \<Rightarrow> xml" where
  "sample_response code =
     Element ''{urn:t}response'' [] None
       [Element ''{urn:t}operation'' [] (Some ''ACTION'') [],
        Element ''{urn:t}responseCode'' [] (Some code) []]"

definition sample_location :: NodeLocation where
  "sample_location =
     \<lparr>location_id = ''NA1'', location_name = Some ''US - West'',
      location_country = Some ''US''\<rparr>"

definition sample_image :: NodeImage where
  "sample_image =
     \<lparr>image_id = ''IMG1'', image_name = ''RedHat 6 64-bit'',
      image_extra =
        \<lparr>image_description = None, image_OS_type = Some ''UNIX'',
         image_OS_displayName = None, image_cpuCount = Some ''2'',
         image_resourcePath = None, image_memory = Some ''4096'',
         image_osStorage = None, image_additionalStorage = None, image_created = None,
         image_location = sample_location\<rparr>\<rparr>"

definition sample_network :: DimensionDataNetwork where
  "sample_network =
     \<lparr>network_id = Some ''NET1'', network_name = Some ''lan'', network_description = None,
      network_location = sample_location, network_private_net = Some ''10.0.0.0'',
      network_multicast = False, network_status = default_status\<rparr>"

definition sample_domain :: DimensionDataNetworkDomain where
  "sample_domain =
     \<lparr>domain_id = Some ''DOM1'', domain_name = Some ''domain'', domain_description = None,
      domain_location = sample_location, domain_status = default_status\<rparr>"

definition sample_vlan :: DimensionDataVlan where
  "sample_vlan =
     \<lparr>vlan_id = Some ''VLAN1'', vlan_name = Some ''vlan'', vlan_description = None,
      vlan_location = sample_location, vlan_status = default_status\<rparr>"

definition sample_auth :: "unit \<Rightarrow> py_error + NodeAuthPassword" where
  "sample_auth auth = Inr \<lparr>auth_password = ''s3cret'', generated = False\<rparr>"

definition sample_server :: xml where
  "sample_server =
     Element ''{urn:t}Server'' [(''id'', ''SRV1''), (''datacenterId'', ''NA1'')] None
       [Element ''{urn:t}name'' [] (Some ''web1'') [],
        Element ''{urn:t}cpuCount'' [] (Some ''2'') [],
        Element ''{urn:t}memoryGb'' [] (Some ''4'') [],
        Element ''{urn:t}operatingSystem'' [(''id'', ''RHEL664''), (''family'', ''UNIX'')] None [],
        Element ''{urn:t}nic'' [(''privateIpv4'', ''10.0.0.1'')] None [],
        Element ''{urn:t}started'' [] (Some ''true'') []]"

definition sample_deploy_response :: xml where
  "sample_deploy_response =
     Element ''{urn:t}response'' [] None
       [Element ''{urn:t}responseCode'' [] (Some ''IN_PROGRESS'') [],
        Element ''{urn:t}info'' [(''name'', ''serverId''), (''value'', ''SRV1'')] None []]"

definition sample_conn :: transport where
  "sample_conn sent r =
     (if req_action r = ''server/deployServer'' then Inr sample_deploy_response
      else Inr sample_server)"

definition sample_server_domain :: xml where
  "sample_server_domain =
     Element ''{urn:t}Server'' [(''id'', ''SRV2''), (''datacenterId'', ''NA1'')] None
       [Element ''{urn:t}name'' [] (Some ''db1'') [],
        Element ''{urn:t}cpuCount'' [] (Some ''8'') [],
        Element ''{urn:t}memoryGb'' [] (Some ''16'') [],
        Element ''{urn:t}operatingSystem'' [(''id'', ''WIN2012''), (''family'', ''WINDOWS'')] None [],
        Element ''{urn:t}nic'' [(''privateIpv4'', ''10.0.0.9'')] None [],
        Element ''{urn:t}networkInfo'' [(''networkDomainId'', ''DOM1'')] None
          [Element ''{urn:t}primaryNic'' [(''privateIpv4'', ''10.1.1.5'')] None []],
        Element ''{urn:t}started'' [] (Some ''false'') []]"

definition sample_datacenters :: xml where
  "sample_datacenters =
     Element ''{urn:t}datacenters'' [] None
       [Element ''{urn:t}datacenter'' [(''id'', ''NA1'')] None
          [Element ''{urn:t}displayName'' [] (Some ''US - West'') [],
           Element ''{urn:t}country'' [] (Some ''US'') []]]"

text \<open>
  A server whose \<^verbatim>\<open>networkInfo\<close> has no \<^verbatim>\<open>primaryNic\<close> while a \<^verbatim>\<open>nic\<close> is
  there, and servers with a given \<^verbatim>\<open>started\<close> text or none.
\<close>

definition sample_server_bare_info :: xml where
  "sample_server_bare_info =
     Element ''{urn:t}Server'' [(''id'', ''SRV3''), (''datacenterId'', ''NA1'')] None
       [Element ''{urn:t}name'' [] (Some ''cache1'') [],
        Element ''{urn:t}cpuCount'' [] (Some ''1'') [],
        Element ''{urn:t}memoryGb'' [] (Some ''2'') [],
        Element ''{urn:t}operatingSystem'' [(''id'', ''RHEL664''), (''family'', ''UNIX'')] None [],
        Element ''{urn:t}nic'' [(''privateIpv4'', ''10.0.0.7'')] None [],
        Element ''{urn:t}networkInfo'' [(''networkDomainId'', ''DOM1'')] None [],
        Element ''{urn:t}started'' [] (Some ''true'') []]"

definition sample_server_started :: "string option \<Rightarrow> xml" where
  "sample_server_started started =
     Element ''{urn:t}Server'' [(''id'', ''SRV4''), (''datacenterId'', ''NA1'')] None
       ([Element ''{urn:t}name'' [] (Some ''batch1'') [],
         Element ''{urn:t}cpuCount'' [] (Some ''12'') [],
         Element ''{urn:t}memoryGb'' [] (Some ''64'') [],
         Element ''{urn:t}operatingSystem'' [(''id'', ''RHEL664''), (''family'', ''UNIX'')] None [],
         Element ''{urn:t}nic'' [(''privateIpv4'', ''10.0.0.8'')] None []]
        @ (case started of
             None \<Rightarrow> []
           | Some t \<Rightarrow> [Element ''{urn:t}started'' [] (Some t) []]))"

text \<open>An interpreter that reads nothing beyond the ASCII decimal literals.\<close>

definition ascii_only :: "string \<Rightarrow> int option" where
  "ascii_only s = None"

definition sample_datacenter_conn :: transport where
  "sample_datacenter_conn sent r = Inr sample_datacenters"

section \<open>Properties\<close>

subsection \<open>Paths of one step\<close>

lemma ET_findall_Nil: "ET_findall [] = (\<lambda>e. [e])"
  by (rule ext) simp

lemma ET_findall_single: "ET_findall [t] el = filter (\<lambda>c. tag c = t) (children el)"
  by (simp add: ET_findall_Nil)

lemma find_filter_case:
  "List.find P xs = (case filter P xs of [] \<Rightarrow> None | x # _ \<Rightarrow> Some x)"
  by (induction xs) simp_all

lemma ET_find_single: "ET_find [t] el = List.find (\<lambda>c. tag c = t) (children el)"
  unfolding ET_find_def ET_findall_single find_filter_case ..

lemma fixxpath_responseCode: "fixxpath ''responseCode'' ns = [clark ns ''responseCode'']"
  by (simp add: fixxpath_def clark_def)

lemma findtext_responseCode:
  "(findtext body ''responseCode'' ns = Some ''IN_PROGRESS'') =
   (spec_response_code ns body = Some ''IN_PROGRESS'')"
  by (simp add: findtext_def ET_findtext_def fixxpath_responseCode ET_find_single
      spec_response_code_def split: option.splits)

subsection \<open>Lifecycle actions\<close>

text \<open>
  Each action builds the request of its name from the node's id, sends it, and
  answers whether the response code is \<^verbatim>\<open>IN_PROGRESS\<close>.
\<close>

lemma destroy_node_eq:
  "destroy_node ns conn node sent =
   (case node_id node of
      None \<Rightarrow> (Inl TypeError, sent)
    | Some i \<Rightarrow>
        (case conn sent (spec_simple_request ns ''deleteServer'' i) of
           Inl e \<Rightarrow> (Inl e, sent @ [spec_simple_request ns ''deleteServer'' i])
         | Inr body \<Rightarrow> (Inr (spec_response_code ns body = Some ''IN_PROGRESS''),
             sent @ [spec_simple_request ns ''deleteServer'' i])))"
  by (simp add: destroy_node_def spec_simple_request_def bind_def lift_def attr_value_def
      send_def return_def raise_def findtext_responseCode split: option.splits sum.splits)

lemma reboot_node_eq:
  "reboot_node ns conn node sent =
   (case node_id node of
      None \<Rightarrow> (Inl TypeError, sent)
    | Some i \<Rightarrow>
        (case conn sent (spec_simple_request ns ''rebootServer'' i) of
           Inl e \<Rightarrow> (Inl e, sent @ [spec_simple_request ns ''rebootServer'' i])
         | Inr body \<Rightarrow> (Inr (spec_response_code ns body = Some ''IN_PROGRESS''),
             sent @ [spec_simple_request ns ''rebootServer'' i])))"
  by (simp add: reboot_node_def spec_simple_request_def bind_def lift_def attr_value_def
      send_def return_def raise_def findtext_responseCode split: option.splits sum.splits)

lemma ex_start_node_eq:
  "ex_start_node ns conn node sent =
   (case node_id node of
      None \<Rightarrow> (Inl TypeError, sent)
    | Some i \<Rightarrow>
        (case conn sent (spec_simple_request ns ''startServer'' i) of
           Inl e \<Rightarrow> (Inl e, sent @ [spec_simple_request ns ''startServer'' i])
         | Inr body \<Rightarrow> (Inr (spec_response_code ns body = Some ''IN_PROGRESS''),
             sent @ [spec_simple_request ns ''startServer'' i])))"
  by (simp add: ex_start_node_def spec_simple_request_def bind_def lift_def attr_value_def
      send_def return_def raise_def findtext_responseCode split: option.splits sum.splits)

lemma ex_shutdown_graceful_eq:
  "ex_shutdown_graceful ns conn node sent =
   (case node_id node of
      None \<Rightarrow> (Inl TypeError, sent)
    | Some i \<Rightarrow>
        (case conn sent (spec_simple_request ns ''shutdownServer'' i) of
           Inl e \<Rightarrow> (Inl e, sent @ [spec_simple_request ns ''shutdownServer'' i])
         | Inr body \<Rightarrow> (Inr (spec_response_code ns body = Some ''IN_PROGRESS''),
             sent @ [spec_simple_request ns ''shutdownServer'' i])))"
  by (simp add: ex_shutdown_graceful_def spec_simple_request_def bind_def lift_def
      attr_value_def send_def return_def raise_def findtext_responseCode
      split: option.splits sum.splits)

lemma ex_power_off_eq:
  "ex_power_off ns conn node sent =
   (case node_id node of
      None \<Rightarrow> (Inl TypeError, sent)
    | Some i \<Rightarrow>
        (case conn sent (spec_simple_request ns ''powerOffServer'' i) of
           Inl e \<Rightarrow> (Inl e, sent @ [spec_simple_request ns ''powerOffServer'' i])
         | Inr body \<Rightarrow> (Inr (spec_response_code ns body = Some ''IN_PROGRESS''),
             sent @ [spec_simple_request ns ''powerOffServer'' i])))"
  by (simp add: ex_power_off_def spec_simple_request_def bind_def lift_def attr_value_def
      send_def return_def raise_def findtext_responseCode split: option.splits sum.splits)

lemma ex_reset_eq:
  "ex_reset ns conn node sent =
   (case node_id node of
      None \<Rightarrow> (Inl TypeError, sent)
    | Some i \<Rightarrow>
        (case conn sent (spec_simple_request ns ''resetServer'' i) of
           Inl e \<Rightarrow> (Inl e, sent @ [spec_simple_request ns ''resetServer'' i])
         | Inr body \<Rightarrow> (Inr (spec_response_code ns body = Some ''IN_PROGRESS''),
             sent @ [spec_simple_request ns ''resetServer'' i])))"
  by (simp add: ex_reset_def spec_simple_request_def bind_def lift_def attr_value_def
      send_def return_def raise_def findtext_responseCode split: option.splits sum.splits)

lemma answers_True:
  assumes "r = (case nid of
                  None \<Rightarrow> (Inl TypeError, sent)
                | Some i \<Rightarrow>
                    (case conn sent (mk i) of
                       Inl e \<Rightarrow> (Inl e, sent @ [mk i])
                     | Inr body \<Rightarrow> (Inr (p body), sent @ [mk i])))"
  shows "(fst r = Inr True) = (\<exists>i body. nid = Some i \<and> conn sent (mk i) = Inr body \<and> p body)"
  unfolding assms by (cases nid) (auto split: sum.splits)

lemma answers_False:
  assumes "r = (case nid of
                  None \<Rightarrow> (Inl TypeError, sent)
                | Some i \<Rightarrow>
                    (case conn sent (mk i) of
                       Inl e \<Rightarrow> (Inl e, sent @ [mk i])
                     | Inr body \<Rightarrow> (Inr (p body), sent @ [mk i])))"
  shows "(fst r = Inr False) = (\<exists>i body. nid = Some i \<and> conn sent (mk i) = Inr body \<and> \<not> p body)"
  unfolding assms by (cases nid) (auto split: sum.splits)

text \<open>
  C1. Each of the six lifecycle actions returns true exactly when the transport
  answers its request with a document whose \<^verbatim>\<open>responseCode\<close> field has the text
  \<^verbatim>\<open>IN_PROGRESS\<close>, and returns false exactly when the transport answers with a
  document where that field has any other text or is absent.
\<close>

theorem lifecycle_action_accepted_iff_in_progress:
  "((fst (destroy_node ns conn node sent) = Inr True) =
      (\<exists>i body. node_id node = Some i \<and>
         conn sent (spec_simple_request ns ''deleteServer'' i) = Inr body \<and>
         spec_response_code ns body = Some ''IN_PROGRESS'')) \<and>
   ((fst (destroy_node ns conn node sent) = Inr False) =
      (\<exists>i body. node_id node = Some i \<and>
         conn sent (spec_simple_request ns ''deleteServer'' i) = Inr body \<and>
         spec_response_code ns body \<noteq> Some ''IN_PROGRESS'')) \<and>
   ((fst (reboot_node ns conn node sent) = Inr True) =
      (\<exists>i body. node_id node = Some i \<and>
         conn sent (spec_simple_request ns ''rebootServer'' i) = Inr body \<and>
         spec_response_code ns body = Some ''IN_PROGRESS'')) \<and>
   ((fst (reboot_node ns conn node sent) = Inr False) =
      (\<exists>i body. node_id node = Some i \<and>
         conn sent (spec_simple_request ns ''rebootServer'' i) = Inr body \<and>
         spec_response_code ns body \<noteq> Some ''IN_PROGRESS'')) \<and>
   ((fst (ex_start_node ns conn node sent) = Inr True) =
      (\<exists>i body. node_id node = Some i \<and>
         conn sent (spec_simple_request ns ''startServer'' i) = Inr body \<and>
         spec_response_code ns body = Some ''IN_PROGRESS'')) \<and>
   ((fst (ex_start_node ns conn node sent) = Inr False) =
      (\<exists>i body. node_id node = Some i \<and>
         conn sent (spec_simple_request ns ''startServer'' i) = Inr body \<and>
         spec_response_code ns body \<noteq> Some ''IN_PROGRESS'')) \<and>
   ((fst (ex_shutdown_graceful ns conn node sent) = Inr True) =
      (\<exists>i body. node_id node = Some i \<and>
         conn sent (spec_simple_request ns ''shutdownServer'' i) = Inr body \<and>
         spec_response_code ns body = Some ''IN_PROGRESS'')) \<and>
   ((fst (ex_shutdown_graceful ns conn node sent) = Inr False) =
      (\<exists>i body. node_id node = Some i \<and>
         conn sent (spec_simple_request ns ''shutdownServer'' i) = Inr body \<and>
         spec_response_code ns body \<noteq> Some ''IN_PROGRESS'')) \<and>
   ((fst (ex_power_off ns conn node sent) = Inr True) =
      (\<exists>i body. node_id node = Some i \<and>
         conn sent (spec_simple_request ns ''powerOffServer'' i) = Inr body \<and>
         spec_response_code ns body = Some ''IN_PROGRESS'')) \<and>
   ((fst (ex_power_off ns conn node sent) = Inr False) =
      (\<exists>i body. node_id node = Some i \<and>
         conn sent (spec_simple_request ns ''powerOffServer'' i) = Inr body \<and>
         spec_response_code ns body \<noteq> Some ''IN_PROGRESS'')) \<and>
   ((fst (ex_reset ns conn node sent) = Inr True) =
      (\<exists>i body. node_id node = Some i \<and>
         conn sent (spec_simple_request ns ''resetServer'' i) = Inr body \<and>
         spec_response_code ns body = Some ''IN_PROGRESS'')) \<and>
   ((fst (ex_reset ns conn node sent) = Inr False) =
      (\<exists>i body. node_id node = Some i \<and>
         conn sent (spec_simple_request ns ''resetServer'' i) = Inr body \<and>
         spec_response_code ns body \<noteq> Some ''IN_PROGRESS''))"
  by (intro conjI)
    (rule answers_True [OF destroy_node_eq] answers_False [OF destroy_node_eq]
          answers_True [OF reboot_node_eq] answers_False [OF reboot_node_eq]
          answers_True [OF ex_start_node_eq] answers_False [OF ex_start_node_eq]
          answers_True [OF ex_shutdown_graceful_eq] answers_False [OF ex_shutdown_graceful_eq]
          answers_True [OF ex_power_off_eq] answers_False [OF ex_power_off_eq]
          answers_True [OF ex_reset_eq] answers_False [OF ex_reset_eq])+

theorem lifecycle_action_accepted_witness:
  "fst (destroy_node ''urn:t'' (\<lambda>sent r. Inr (sample_response ''IN_PROGRESS'')) sample_node [])
     = Inr True \<and>
   fst (ex_start_node ''urn:t'' (\<lambda>sent r. Inr (sample_response ''FAILED'')) sample_node [])
     = Inr False \<and>
   fst (ex_reset ''urn:t'' (\<lambda>sent r. Inr (Element ''{urn:t}response'' [] None [])) sample_node [])
     = Inr False"
  using lifecycle_action_accepted_iff_in_progress
          [of "''urn:t''" "\<lambda>sent r. Inr (sample_response ''IN_PROGRESS'')" sample_node "[]"]
        lifecycle_action_accepted_iff_in_progress
          [of "''urn:t''" "\<lambda>sent r. Inr (sample_response ''FAILED'')" sample_node "[]"]
        lifecycle_action_accepted_iff_in_progress
          [of "''urn:t''" "\<lambda>sent r. Inr (Element ''{urn:t}response'' [] None [])" sample_node "[]"]
  by (simp add: sample_node_def sample_response_def spec_response_code_def clark_def)

subsection \<open>Deploying a server\<close>

lemma ex_get_node_by_id_eq:
  "ex_get_node_by_id ns ii conn ident sent =
     (case conn sent (spec_get_node_request ident) of
        Inl e \<Rightarrow> (Inl e, sent @ [spec_get_node_request ident])
      | Inr el \<Rightarrow> (to_node ns ii el, sent @ [spec_get_node_request ident]))"
  by (simp add: ex_get_node_by_id_def spec_get_node_request_def bind_def send_def lift_def
      return_def raise_def split: sum.splits)

lemma foldl_server_id:
  "foldl (\<lambda>ident info. if get info ''name'' = Some ''serverId'' then get info ''value'' else ident)
     acc infos =
   (case filter (\<lambda>info. get info ''name'' = Some ''serverId'') infos of
      [] \<Rightarrow> acc
    | xs \<Rightarrow> get (last xs) ''value'')"
  by (induction infos arbitrary: acc) (auto split: list.splits)

lemma server_id_spec: "server_id ns response = spec_server_id ns response"
  by (simp add: server_id_def spec_server_id_def findall_def fixxpath_def clark_def
      ET_findall_single foldl_server_id del: ET_findall.simps)

text \<open>
  Past the two checks, \<^verbatim>\<open>create_node\<close> posts the document, reads the new id from
  the answer, fetches that node and returns it.
\<close>

lemma create_node_accepted:
  assumes "gca auth = Inr a"
    and "isinstance_DimensionDataNetwork ex_network \<or>
         isinstance_DimensionDataNetworkDomain ex_network_domain"
    and "deployServer ns name desc img (auth_password a) ex_network ex_network_domain ex_vlan
           started = Inr server_elm"
  shows "create_node ns ii gca conn name img auth desc ex_network ex_network_domain ex_vlan started
           sent =
     (case conn sent (spec_deploy_request server_elm) of
        Inl e \<Rightarrow> (Inl e, sent @ [spec_deploy_request server_elm])
      | Inr response \<Rightarrow>
          (case conn (sent @ [spec_deploy_request server_elm])
                  (spec_get_node_request (spec_server_id ns response)) of
             Inl e \<Rightarrow> (Inl e, sent @ [spec_deploy_request server_elm,
                                  spec_get_node_request (spec_server_id ns response)])
           | Inr el \<Rightarrow>
               (map_sum id (\<lambda>node. if generated a
                      then node\<lparr>extra := (extra node)\<lparr>password := Some (auth_password a)\<rparr>\<rparr>
                      else node) (to_node ns ii el),
                sent @ [spec_deploy_request server_elm,
                        spec_get_node_request (spec_server_id ns response)])))"
  using assms
  by (auto simp add: create_node_def bind_def lift_def raise_def return_def send_def
      ex_get_node_by_id_eq server_id_spec spec_deploy_request_def
      split: sum.splits)

lemma lower_str_bool: "lower (str_bool b) = (if b then ''true'' else ''false'')"
  by (simp add: lower_def str_bool_def lower_char_def)

text \<open>
  C2. When \<^verbatim>\<open>ex_network\<close> is no \<^verbatim>\<open>DimensionDataNetwork\<close> and
  \<^verbatim>\<open>ex_network_domain\<close> is no \<^verbatim>\<open>DimensionDataNetworkDomain\<close>, \<^verbatim>\<open>create_node\<close>
  raises and leaves the list of requests sent as it was: nothing is sent. The error
  is the \<^verbatim>\<open>ValueError\<close> of the network check whenever the credential check that
  runs before it returns; when that check raises, its own error is the one raised.
\<close>

theorem create_node_rejects_without_network:
  assumes "\<not> isinstance_DimensionDataNetwork ex_network"
    and "\<not> isinstance_DimensionDataNetworkDomain ex_network_domain"
  shows "create_node ns ii gca conn name img auth desc ex_network ex_network_domain ex_vlan started
           sent =
     (Inl (case gca auth of Inl e \<Rightarrow> e | Inr a \<Rightarrow> ValueError invalid_network_message), sent)"
  using assms
  by (simp add: create_node_def bind_def lift_def raise_def return_def
      invalid_network_message_def split: sum.splits)

theorem create_node_rejects_without_network_witness:
  "\<not> isinstance_DimensionDataNetwork (Object None) \<and>
   \<not> isinstance_DimensionDataNetworkDomain (Network sample_network) \<and>
   create_node ''urn:t'' ascii_only sample_auth sample_conn ''web1'' sample_image () ''a web server''
     (Object None) (Network sample_network) PyNone True [] =
     (Inl (ValueError invalid_network_message), []) \<and>
   deployServer ''urn:t'' ''web1'' ''a web server'' sample_image ''s3cret''
     (Object None) (Network sample_network) PyNone True = Inl AttributeError"
  using create_node_rejects_without_network
          [where ex_network = "Object None" and ex_network_domain = "Network sample_network"
             and ns = "''urn:t''" and ii = ascii_only and gca = sample_auth
             and conn = sample_conn and name = "''web1''" and img = sample_image
             and auth = "()" and desc = "''a web server''" and ex_vlan = PyNone
             and started = True and sent = "[]"]
  by (simp add: sample_auth_def deployServer_def and_then_def)



text \<open>
  C9. With a \<^verbatim>\<open>DimensionDataNetwork\<close>, a \<^verbatim>\<open>DimensionDataNetworkDomain\<close> that has
  an id and a \<^verbatim>\<open>DimensionDataVlan\<close> all supplied, \<^verbatim>\<open>create_node\<close> does not
  refuse the call: the document it builds holds both the \<^verbatim>\<open>network\<close> element with
  its \<^verbatim>\<open>networkId\<close> and the \<^verbatim>\<open>networkInfo\<close> element with its
  \<^verbatim>\<open>primaryNic/vlanId\<close>, and that document is posted.
\<close>

theorem create_node_both_network_modes:
  assumes "gca auth = Inr a" and "domain_id d = Some di"
  shows "\<exists>server_elm rest.
     deployServer ns name desc img (auth_password a) (Network n) (NetworkDomain d) (Vlan v)
       started = Inr server_elm \<and>
     ET_find [''network'', ''networkId''] server_elm =
       Some (Element ''networkId'' [] (network_id n) []) \<and>
     ET_find [''networkInfo''] server_elm =
       Some (Element ''networkInfo'' [(''networkDomainId'', di)] None
               [Element ''primaryNic'' [] None [Element ''vlanId'' [] (vlan_id v) []]]) \<and>
     ET_find [''networkInfo'', ''primaryNic'', ''vlanId''] server_elm =
       Some (Element ''vlanId'' [] (vlan_id v) []) \<and>
     snd (create_node ns ii gca conn name img auth desc (Network n) (NetworkDomain d) (Vlan v)
            started sent) = sent @ spec_deploy_request server_elm # rest"
proof -
  define server_elm where "server_elm =
    Element ''deployServer'' [(''xmlns'', ns)] None
      [Element ''name'' [] (Some name) [],
       Element ''description'' [] (Some desc) [],
       Element ''imageId'' [] (Some (image_id img)) [],
       Element ''start'' [] (Some (if started then ''true'' else ''false'')) [],
       Element ''administratorPassword'' [] (Some (auth_password a)) [],
       Element ''network'' [] None [Element ''networkId'' [] (network_id n) []],
       Element ''networkInfo'' [(''networkDomainId'', di)] None
         [Element ''primaryNic'' [] None [Element ''vlanId'' [] (vlan_id v) []]]]"
  have built: "deployServer ns name desc img (auth_password a) (Network n) (NetworkDomain d)
                 (Vlan v) started = Inr server_elm"
    using assms(2)
    by (simp add: deployServer_def and_then_def attr_value_def lower_str_bool server_elm_def)
  have found:
      "ET_find [''network'', ''networkId''] server_elm =
         Some (Element ''networkId'' [] (network_id n) [])"
      "ET_find [''networkInfo''] server_elm =
         Some (Element ''networkInfo'' [(''networkDomainId'', di)] None
                 [Element ''primaryNic'' [] None [Element ''vlanId'' [] (vlan_id v) []]])"
      "ET_find [''networkInfo'', ''primaryNic'', ''vlanId''] server_elm =
         Some (Element ''vlanId'' [] (vlan_id v) [])"
    by (simp_all add: server_elm_def ET_find_def)
  have "isinstance_DimensionDataNetwork (Network n) \<or>
        isinstance_DimensionDataNetworkDomain (NetworkDomain d)"
    by simp
  from create_node_accepted
         [where gca = gca and auth = auth and conn = conn and sent = sent, OF assms(1) this built]
  have "\<exists>rest. snd (create_node ns ii gca conn name img auth desc (Network n) (NetworkDomain d)
                      (Vlan v) started sent) = sent @ spec_deploy_request server_elm # rest"
    by (auto split: sum.splits)
  with built found show ?thesis
    by blast
qed

theorem create_node_both_network_modes_witness:
  "sample_auth () = Inr \<lparr>auth_password = ''s3cret'', generated = False\<rparr> \<and>
   domain_id sample_domain = Some ''DOM1'' \<and>
   (\<exists>server_elm rest.
     deployServer ''urn:t'' ''web1'' ''a web server'' sample_image ''s3cret''
       (Network sample_network) (NetworkDomain sample_domain) (Vlan sample_vlan) True
       = Inr server_elm \<and>
     ET_find [''network'', ''networkId''] server_elm =
       Some (Element ''networkId'' [] (Some ''NET1'') []) \<and>
     ET_find [''networkInfo''] server_elm =
       Some (Element ''networkInfo'' [(''networkDomainId'', ''DOM1'')] None
               [Element ''primaryNic'' [] None [Element ''vlanId'' [] (Some ''VLAN1'') []]]) \<and>
     ET_find [''networkInfo'', ''primaryNic'', ''vlanId''] server_elm =
       Some (Element ''vlanId'' [] (Some ''VLAN1'') []) \<and>
     snd (create_node ''urn:t'' ascii_only sample_auth sample_conn ''web1'' sample_image ()
            ''a web server'' (Network sample_network) (NetworkDomain sample_domain)
            (Vlan sample_vlan) True []) = [] @ spec_deploy_request server_elm # rest)"
proof -
  have h: "sample_auth () = Inr \<lparr>auth_password = ''s3cret'', generated = False\<rparr>"
    by (simp add: sample_auth_def)
  have i: "domain_id sample_domain = Some ''DOM1''"
    by (simp add: sample_domain_def)
  have n: "network_id sample_network = Some ''NET1''" "vlan_id sample_vlan = Some ''VLAN1''"
    by (simp_all add: sample_network_def sample_vlan_def)
  from create_node_both_network_modes
         [where gca = sample_auth and auth = "()" and d = sample_domain and ns = "''urn:t''"
            and ii = ascii_only
            and name = "''web1''" and desc = "''a web server''" and img = sample_image
            and n = sample_network and v = sample_vlan and started = True
            and conn = sample_conn and sent = "[]",
          OF h i]
  show ?thesis
    using h i unfolding n by simp
qed

subsection \<open>Reading integers\<close>

lemma digit_digit_char: "d < 10 \<Longrightarrow> digit (digit_char d) = Some d"
proof -
  assume "d < 10"
  then have "d = 0 \<or> d = 1 \<or> d = 2 \<or> d = 3 \<or> d = 4 \<or> d = 5 \<or> d = 6 \<or> d = 7 \<or> d = 8 \<or> d = 9"
    by arith
  then show ?thesis
    by (elim disjE) (simp_all add: digit_def digit_char_def)
qed

lemma digits_append:
  "digits acc (xs @ [c]) =
     (case digits acc xs of
        None \<Rightarrow> None
      | Some a \<Rightarrow> (case digit c of None \<Rightarrow> None | Some d \<Rightarrow> Some (10 * a + d)))"
  by (induction xs arbitrary: acc) (auto split: option.splits)

lemma digits_decimal: "digits 0 (spec_decimal n) = Some n"
proof (induction n rule: spec_decimal.induct)
  case (1 n)
  show ?case
  proof (cases "n < 10")
    case True
    then show ?thesis
      by (subst spec_decimal.simps) (simp add: digit_digit_char)
  next
    case False
    with 1 have "digits 0 (spec_decimal (n div 10)) = Some (n div 10)"
      by simp
    with False show ?thesis
      by (subst spec_decimal.simps) (simp add: digits_append digit_digit_char)
  qed
qed

lemma decimal_not_empty: "spec_decimal n \<noteq> []"
  by (subst spec_decimal.simps) simp

lemma decimal_digits: "c \<in> set (spec_decimal n) \<Longrightarrow> digit c \<noteq> None"
proof (induction n rule: spec_decimal.induct)
  case (1 n)
  show ?case
  proof (cases "n < 10")
    case True
    with 1(2) have "c = digit_char n"
      by (subst (asm) spec_decimal.simps) simp
    with True show ?thesis
      by (simp add: digit_digit_char)
  next
    case False
    with 1(2) have "c \<in> set (spec_decimal (n div 10)) \<or> c = digit_char (n mod 10)"
      by (subst (asm) spec_decimal.simps) auto
    with 1(1) False show ?thesis
      by (auto simp: digit_digit_char)
  qed
qed

lemma digit_not_space: "digit c \<noteq> None \<Longrightarrow> \<not> is_space c \<and> c \<noteq> CHR ''-'' \<and> c \<noteq> CHR ''+''"
  by (auto simp: digit_def is_space_def)

lemma strip_id:
  assumes "s \<noteq> []" and "\<not> is_space (hd s)" and "\<not> is_space (last s)"
  shows "strip s = s"
proof -
  from assms(1,2) have "dropWhile is_space s = s"
    by (cases s) simp_all
  moreover from assms(1,3) have "dropWhile is_space (rev s) = rev s"
    by (cases s rule: rev_cases) simp_all
  ultimately show ?thesis
    by (simp add: strip_def)
qed

lemma decimal_last_digit: "digit (last (spec_decimal n)) \<noteq> None"
  using decimal_digits [of "last (spec_decimal n)" n] decimal_not_empty [of n]
  by simp

lemma decimal_hd_digit: "digit (hd (spec_decimal n)) \<noteq> None"
  using decimal_digits [of "hd (spec_decimal n)" n] decimal_not_empty [of n]
  by simp

lemma strip_decimal: "strip (spec_decimal n) = spec_decimal n"
  using decimal_not_empty [of n] decimal_hd_digit [of n] decimal_last_digit [of n]
    digit_not_space
  by (intro strip_id) blast+

lemma ascii_int_decimal: "ascii_int (spec_decimal n) = Some (int n)"
proof -
  obtain c cs where s: "spec_decimal n = c # cs"
    using decimal_not_empty [of n] by (cases "spec_decimal n") auto
  have "digit c \<noteq> None"
    using decimal_hd_digit [of n] s by simp
  then have c: "c \<noteq> CHR ''-''" "c \<noteq> CHR ''+''"
    using digit_not_space [of c] by simp_all
  have "digits 0 (c # cs) = Some n"
    using digits_decimal [of n] s by simp
  with c show ?thesis
    using strip_decimal [of n] by (simp add: ascii_int_def s unsigned_def)
qed





lemma int_of_str_decimal: "int_of_str ii (spec_decimal n) = Some (int n)"
  by (simp add: int_of_str_def ascii_int_decimal)


lemma int_of_str_empty: "int_of_str ii [] = None"
  by (simp add: int_of_str_def ascii_int_def strip_def)

subsection \<open>Mapping a server element\<close>

lemma split_no_separator: "sep \<notin> set s \<Longrightarrow> split sep s = [s]"
  by (induction s) auto

lemma fixxpath_single: "CHR ''/'' \<notin> set lname \<Longrightarrow> fixxpath lname ns = [clark ns lname]"
  by (simp add: fixxpath_def clark_def split_no_separator)

lemma fixxpath_primaryNic:
  "fixxpath ''networkInfo/primaryNic'' ns = [clark ns ''networkInfo'', clark ns ''primaryNic'']"
  by (simp add: fixxpath_def clark_def)

lemma findtext_single:
  "CHR ''/'' \<notin> set lname \<Longrightarrow>
   findtext element lname ns =
     (case List.find (\<lambda>c. tag c = clark ns lname) (children element) of
        None \<Rightarrow> None
      | Some c \<Rightarrow> Some (case elem_text c of None \<Rightarrow> [] | Some t \<Rightarrow> t))"
  by (simp add: findtext_def ET_findtext_def fixxpath_single ET_find_single)

lemma findtext_started:
  "(findtext element ''started'' ns = Some ''true'') = (spec_field ns ''started'' element = Some ''true'')"
  by (simp add: findtext_single spec_field_def split: option.splits)

lemma py_int_findtext:
  assumes "CHR ''/'' \<notin> set lname"
  shows "(py_int ii (findtext element lname ns) = Inr i) =
         (\<exists>s. spec_field ns lname element = Some s \<and> int_of_str ii s = Some i)"
  using assms
  by (auto simp: findtext_single py_int_def spec_field_def int_of_str_empty
      split: option.splits)

text \<open>The element the private address is read from.\<close>

lemma private_ip_selected:
  "private_ip ns element (ET_find (fixxpath ''networkInfo'' ns) element \<noteq> None) =
     find_get (if ET_find [clark ns ''networkInfo''] element \<noteq> None
               then ET_find [clark ns ''networkInfo'', clark ns ''primaryNic''] element
               else ET_find [clark ns ''nic''] element) ''privateIpv4''"
  by (simp add: private_ip_def fixxpath_single fixxpath_primaryNic)

text \<open>What a node that \<^verbatim>\<open>_to_node\<close> returns was made from.\<close>

lemma to_node_InrD:
  assumes "to_node ns ii element = Inr n"
  shows "state n = (if findtext element ''started'' ns = Some ''true'' then RUNNING else TERMINATED)"
    and "\<exists>c. py_int ii (findtext element ''cpuCount'' ns) = Inr c \<and> cpuCount (extra n) = c"
    and "\<exists>g. py_int ii (findtext element ''memoryGb'' ns) = Inr g \<and> memoryMb (extra n) = g * 1024"
    and "\<exists>p. private_ip ns element (ET_find (fixxpath ''networkInfo'' ns) element \<noteq> None) = Inr p \<and>
             private_ips n = (case p of None \<Rightarrow> [] | Some ip \<Rightarrow> [ip])"
  using assms
  by (auto simp: to_node_def new_Node_def Let_def and_then_def split: sum.splits)

text \<open>
  When \<^verbatim>\<open>_to_node\<close> returns, and what: the element has to carry what the mapper
  reads without a guard.
\<close>

lemma to_node_returns:
  assumes "py_int ii (findtext element ''cpuCount'' ns) = Inr c"
    and "py_int ii (findtext element ''memoryGb'' ns) = Inr g"
    and "ET_find (fixxpath ''operatingSystem'' ns) element = Some os"
    and "private_ip ns element (ET_find (fixxpath ''networkInfo'' ns) element \<noteq> None) = Inr p"
  shows "\<exists>n. to_node ns ii element = Inr n \<and>
           state n = (if findtext element ''started'' ns = Some ''true''
                      then RUNNING else TERMINATED) \<and>
           cpuCount (extra n) = c \<and> memoryMb (extra n) = g * 1024 \<and>
           private_ips n = (case p of None \<Rightarrow> [] | Some ip \<Rightarrow> [ip])"
  using assms
  by (cases "ET_find (fixxpath ''networkInfo'' ns) element")
    (simp_all add: to_node_def new_Node_def Let_def and_then_def find_get_def)

lemma to_node_raises:
  assumes "py_int ii (findtext element ''cpuCount'' ns) = Inr c"
    and "py_int ii (findtext element ''memoryGb'' ns) = Inr g"
    and "ET_find (fixxpath ''operatingSystem'' ns) element = Some os"
    and "private_ip ns element (ET_find (fixxpath ''networkInfo'' ns) element \<noteq> None) = Inl e"
  shows "to_node ns ii element = Inl e"
  using assms
  by (cases "ET_find (fixxpath ''networkInfo'' ns) element")
    (simp_all add: to_node_def new_Node_def Let_def and_then_def find_get_def)

text \<open>The same from the element alone, in the words of the specification.\<close>

lemma to_node_mapped:
  assumes "spec_field ns ''cpuCount'' element = Some cpu" and "int_of_str ii cpu = Some c"
    and "spec_field ns ''memoryGb'' element = Some gb" and "int_of_str ii gb = Some g"
    and "ET_find [clark ns ''operatingSystem''] element = Some os"
    and "(if ET_find [clark ns ''networkInfo''] element \<noteq> None
          then ET_find [clark ns ''networkInfo'', clark ns ''primaryNic''] element
          else ET_find [clark ns ''nic''] element) = Some nic"
  shows "\<exists>n. to_node ns ii element = Inr n \<and>
           state n = (if spec_field ns ''started'' element = Some ''true''
                      then RUNNING else TERMINATED) \<and>
           cpuCount (extra n) = c \<and> memoryMb (extra n) = g * 1024 \<and>
           private_ips n = (case get nic ''privateIpv4'' of None \<Rightarrow> [] | Some ip \<Rightarrow> [ip])"
proof -
  have "py_int ii (findtext element ''cpuCount'' ns) = Inr c"
    using assms(1,2) by (simp add: py_int_findtext)
  moreover have "py_int ii (findtext element ''memoryGb'' ns) = Inr g"
    using assms(3,4) by (simp add: py_int_findtext)
  moreover have "ET_find (fixxpath ''operatingSystem'' ns) element = Some os"
    using assms(5) by (simp add: fixxpath_single)
  moreover have "private_ip ns element (ET_find (fixxpath ''networkInfo'' ns) element \<noteq> None)
                   = Inr (get nic ''privateIpv4'')"
    unfolding private_ip_selected assms(6) by (simp add: find_get_def)
  ultimately show ?thesis
    unfolding findtext_started [symmetric] by (rule to_node_returns)
qed

lemma to_node_no_nic:
  assumes "spec_field ns ''cpuCount'' element = Some cpu" and "int_of_str ii cpu = Some c"
    and "spec_field ns ''memoryGb'' element = Some gb" and "int_of_str ii gb = Some g"
    and "ET_find [clark ns ''operatingSystem''] element = Some os"
    and "(if ET_find [clark ns ''networkInfo''] element \<noteq> None
          then ET_find [clark ns ''networkInfo'', clark ns ''primaryNic''] element
          else ET_find [clark ns ''nic''] element) = None"
  shows "to_node ns ii element = Inl AttributeError"
proof -
  have "py_int ii (findtext element ''cpuCount'' ns) = Inr c"
    using assms(1,2) by (simp add: py_int_findtext)
  moreover have "py_int ii (findtext element ''memoryGb'' ns) = Inr g"
    using assms(3,4) by (simp add: py_int_findtext)
  moreover have "ET_find (fixxpath ''operatingSystem'' ns) element = Some os"
    using assms(5) by (simp add: fixxpath_single)
  moreover have "private_ip ns element (ET_find (fixxpath ''networkInfo'' ns) element \<noteq> None)
                   = Inl AttributeError"
    unfolding private_ip_selected assms(6) by (simp add: find_get_def)
  ultimately show ?thesis
    by (rule to_node_raises)
qed

lemma to_node_private_ip_InrD:
  assumes "to_node ns ii element = Inr n"
  shows "\<exists>nic. (if ET_find [clark ns ''networkInfo''] element \<noteq> None
                then ET_find [clark ns ''networkInfo'', clark ns ''primaryNic''] element
                else ET_find [clark ns ''nic''] element) = Some nic \<and>
               private_ips n = (case get nic ''privateIpv4'' of None \<Rightarrow> [] | Some ip \<Rightarrow> [ip])"
proof -
  from to_node_InrD(4) [OF assms] obtain p where
    "find_get (if ET_find [clark ns ''networkInfo''] element \<noteq> None
               then ET_find [clark ns ''networkInfo'', clark ns ''primaryNic''] element
               else ET_find [clark ns ''nic''] element) ''privateIpv4'' = Inr p"
    and "private_ips n = (case p of None \<Rightarrow> [] | Some ip \<Rightarrow> [ip])"
    unfolding private_ip_selected by blast
  then show ?thesis
    by (auto simp: find_get_def split: option.splits)
qed

lemma to_node_mapped_decimal:
  assumes "spec_field ns ''cpuCount'' element = Some (spec_decimal k)"
    and "spec_field ns ''memoryGb'' element = Some (spec_decimal j)"
    and "ET_find [clark ns ''operatingSystem''] element = Some os"
    and "(if ET_find [clark ns ''networkInfo''] element \<noteq> None
          then ET_find [clark ns ''networkInfo'', clark ns ''primaryNic''] element
          else ET_find [clark ns ''nic''] element) = Some nic"
  shows "\<exists>n. to_node ns ii element = Inr n \<and>
           state n = (if spec_field ns ''started'' element = Some ''true''
                      then RUNNING else TERMINATED) \<and>
           cpuCount (extra n) = int k \<and> memoryMb (extra n) = int j * 1024 \<and>
           private_ips n = (case get nic ''privateIpv4'' of None \<Rightarrow> [] | Some ip \<Rightarrow> [ip])"
  using assms(1) int_of_str_decimal assms(2) int_of_str_decimal assms(3,4)
  by (rule to_node_mapped)

lemma to_node_no_nic_decimal:
  assumes "spec_field ns ''cpuCount'' element = Some (spec_decimal k)"
    and "spec_field ns ''memoryGb'' element = Some (spec_decimal j)"
    and "ET_find [clark ns ''operatingSystem''] element = Some os"
    and "(if ET_find [clark ns ''networkInfo''] element \<noteq> None
          then ET_find [clark ns ''networkInfo'', clark ns ''primaryNic''] element
          else ET_find [clark ns ''nic''] element) = None"
  shows "to_node ns ii element = Inl AttributeError"
  using assms(1) int_of_str_decimal assms(2) int_of_str_decimal assms(3,4)
  by (rule to_node_no_nic)

text \<open>
  C3. The private address of a mapped node is read from one shape only. A node that
  \<^verbatim>\<open>_to_node\<close> returns has, when the element has a \<^verbatim>\<open>networkInfo\<close> child, the
  \<^verbatim>\<open>privateIpv4\<close> attribute of \<^verbatim>\<open>networkInfo/primaryNic\<close>, and otherwise that of the
  \<^verbatim>\<open>nic\<close> child. From the element alone: when its \<^verbatim>\<open>cpuCount\<close> and
  \<^verbatim>\<open>memoryGb\<close> texts are decimal numerals and it has an \<^verbatim>\<open>operatingSystem\<close> child,
  a node is returned with the address of the shape selected, whatever the other shape
  holds; and when the shape selected is missing, \<^verbatim>\<open>AttributeError\<close> is raised, also
  when the other shape is there.
\<close>

theorem to_node_private_ip_one_shape:
  "(to_node ns ii element = Inr n \<longrightarrow>
      (ET_find [clark ns ''networkInfo''] element \<noteq> None \<longrightarrow>
         (\<exists>nic. ET_find [clark ns ''networkInfo'', clark ns ''primaryNic''] element = Some nic \<and>
            private_ips n = (case get nic ''privateIpv4'' of None \<Rightarrow> [] | Some ip \<Rightarrow> [ip]))) \<and>
      (ET_find [clark ns ''networkInfo''] element = None \<longrightarrow>
         (\<exists>nic. ET_find [clark ns ''nic''] element = Some nic \<and>
            private_ips n = (case get nic ''privateIpv4'' of None \<Rightarrow> [] | Some ip \<Rightarrow> [ip])))) \<and>
   (spec_field ns ''cpuCount'' element = Some (spec_decimal k) \<and>
    spec_field ns ''memoryGb'' element = Some (spec_decimal j) \<and>
    ET_find [clark ns ''operatingSystem''] element = Some os \<longrightarrow>
      (ET_find [clark ns ''networkInfo''] element \<noteq> None \<and>
       ET_find [clark ns ''networkInfo'', clark ns ''primaryNic''] element = Some nic \<longrightarrow>
         (\<exists>m. to_node ns ii element = Inr m \<and>
            private_ips m = (case get nic ''privateIpv4'' of None \<Rightarrow> [] | Some ip \<Rightarrow> [ip]))) \<and>
      (ET_find [clark ns ''networkInfo''] element = None \<and>
       ET_find [clark ns ''nic''] element = Some nic \<longrightarrow>
         (\<exists>m. to_node ns ii element = Inr m \<and>
            private_ips m = (case get nic ''privateIpv4'' of None \<Rightarrow> [] | Some ip \<Rightarrow> [ip]))) \<and>
      (ET_find [clark ns ''networkInfo''] element \<noteq> None \<and>
       ET_find [clark ns ''networkInfo'', clark ns ''primaryNic''] element = None \<longrightarrow>
         to_node ns ii element = Inl AttributeError) \<and>
      (ET_find [clark ns ''networkInfo''] element = None \<and>
       ET_find [clark ns ''nic''] element = None \<longrightarrow>
         to_node ns ii element = Inl AttributeError))"
proof (intro conjI impI)
  assume "to_node ns ii element = Inr n"
  from to_node_private_ip_InrD [OF this] obtain x where
    x: "(if ET_find [clark ns ''networkInfo''] element \<noteq> None
         then ET_find [clark ns ''networkInfo'', clark ns ''primaryNic''] element
         else ET_find [clark ns ''nic''] element) = Some x"
       "private_ips n = (case get x ''privateIpv4'' of None \<Rightarrow> [] | Some ip \<Rightarrow> [ip])"
    by blast
  {
    assume "ET_find [clark ns ''networkInfo''] element \<noteq> None"
    with x show "\<exists>nic. ET_find [clark ns ''networkInfo'', clark ns ''primaryNic''] element = Some nic \<and>
            private_ips n = (case get nic ''privateIpv4'' of None \<Rightarrow> [] | Some ip \<Rightarrow> [ip])"
      by simp
  }
  {
    assume "ET_find [clark ns ''networkInfo''] element = None"
    with x show "\<exists>nic. ET_find [clark ns ''nic''] element = Some nic \<and>
            private_ips n = (case get nic ''privateIpv4'' of None \<Rightarrow> [] | Some ip \<Rightarrow> [ip])"
      by simp
  }
next
  assume base: "spec_field ns ''cpuCount'' element = Some (spec_decimal k) \<and>
    spec_field ns ''memoryGb'' element = Some (spec_decimal j) \<and>
    ET_find [clark ns ''operatingSystem''] element = Some os"
  {
    assume "ET_find [clark ns ''networkInfo''] element \<noteq> None \<and>
       ET_find [clark ns ''networkInfo'', clark ns ''primaryNic''] element = Some nic"
    with base to_node_mapped_decimal [of ns element k j os nic ii]
    show "\<exists>m. to_node ns ii element = Inr m \<and>
            private_ips m = (case get nic ''privateIpv4'' of None \<Rightarrow> [] | Some ip \<Rightarrow> [ip])"
      by auto
  }
  {
    assume "ET_find [clark ns ''networkInfo''] element = None \<and>
       ET_find [clark ns ''nic''] element = Some nic"
    with base to_node_mapped_decimal [of ns element k j os nic ii]
    show "\<exists>m. to_node ns ii element = Inr m \<and>
            private_ips m = (case get nic ''privateIpv4'' of None \<Rightarrow> [] | Some ip \<Rightarrow> [ip])"
      by auto
  }
  {
    assume "ET_find [clark ns ''networkInfo''] element \<noteq> None \<and>
       ET_find [clark ns ''networkInfo'', clark ns ''primaryNic''] element = None"
    with base to_node_no_nic_decimal [of ns element k j os ii]
    show "to_node ns ii element = Inl AttributeError"
      by auto
  }
  {
    assume "ET_find [clark ns ''networkInfo''] element = None \<and>
       ET_find [clark ns ''nic''] element = None"
    with base to_node_no_nic_decimal [of ns element k j os ii]
    show "to_node ns ii element = Inl AttributeError"
      by auto
  }
qed

lemma sample_decimals:
  "spec_decimal 1 = ''1''" "spec_decimal 2 = ''2''" "spec_decimal 4 = ''4''"
  "spec_decimal 8 = ''8''" "spec_decimal 12 = ''12''" "spec_decimal 16 = ''16''"
  "spec_decimal 64 = ''64''"
  by (simp_all add: spec_decimal.simps digit_char_def)

theorem to_node_private_ip_one_shape_witness:
  "(\<exists>m. to_node ''urn:t'' ascii_only sample_server = Inr m \<and> private_ips m = [''10.0.0.1'']) \<and>
   (\<exists>m. to_node ''urn:t'' ascii_only sample_server_domain = Inr m \<and>
        private_ips m = [''10.1.1.5'']) \<and>
   ET_find [clark ''urn:t'' ''nic''] sample_server_bare_info =
     Some (Element ''{urn:t}nic'' [(''privateIpv4'', ''10.0.0.7'')] None []) \<and>
   to_node ''urn:t'' ascii_only sample_server_bare_info = Inl AttributeError"
proof -
  have "\<exists>m. to_node ''urn:t'' ascii_only sample_server = Inr m \<and> private_ips m = [''10.0.0.1'']"
    using to_node_private_ip_one_shape
            [where ns = "''urn:t''" and ii = ascii_only and element = sample_server
               and n = sample_node and k = 2 and j = 4
               and os = "Element ''{urn:t}operatingSystem''
                           [(''id'', ''RHEL664''), (''family'', ''UNIX'')] None []"
               and nic = "Element ''{urn:t}nic'' [(''privateIpv4'', ''10.0.0.1'')] None []"]
    unfolding sample_decimals
    by (simp add: sample_server_def spec_field_def clark_def ET_find_def get_def)
  moreover
  have "\<exists>m. to_node ''urn:t'' ascii_only sample_server_domain = Inr m \<and>
            private_ips m = [''10.1.1.5'']"
    using to_node_private_ip_one_shape
            [where ns = "''urn:t''" and ii = ascii_only and element = sample_server_domain
               and n = sample_node and k = 8 and j = 16
               and os = "Element ''{urn:t}operatingSystem''
                           [(''id'', ''WIN2012''), (''family'', ''WINDOWS'')] None []"
               and nic = "Element ''{urn:t}primaryNic'' [(''privateIpv4'', ''10.1.1.5'')] None []"]
    unfolding sample_decimals
    by (simp add: sample_server_domain_def spec_field_def clark_def ET_find_def get_def)
  moreover
  have "to_node ''urn:t'' ascii_only sample_server_bare_info = Inl AttributeError"
    using to_node_private_ip_one_shape
            [where ns = "''urn:t''" and ii = ascii_only and element = sample_server_bare_info
               and n = sample_node and k = 1 and j = 2
               and os = "Element ''{urn:t}operatingSystem''
                           [(''id'', ''RHEL664''), (''family'', ''UNIX'')] None []"
               and nic = "Element ''{urn:t}nic'' [(''privateIpv4'', ''10.0.0.7'')] None []"]
    unfolding sample_decimals
    by (simp add: sample_server_bare_info_def spec_field_def clark_def ET_find_def get_def)
  moreover
  have "ET_find [clark ''urn:t'' ''nic''] sample_server_bare_info =
          Some (Element ''{urn:t}nic'' [(''privateIpv4'', ''10.0.0.7'')] None [])"
    by (simp add: sample_server_bare_info_def clark_def ET_find_def)
  ultimately show ?thesis
    by blast
qed

text \<open>
  C4. The state of a mapped node is \<^verbatim>\<open>RUNNING\<close> when the text of the element's
  \<^verbatim>\<open>started\<close> field is \<^verbatim>\<open>true\<close> and \<^verbatim>\<open>TERMINATED\<close> otherwise; the mapper
  produces no other state. From the element alone: when its \<^verbatim>\<open>cpuCount\<close> and
  \<^verbatim>\<open>memoryGb\<close> texts are decimal numerals, it has an \<^verbatim>\<open>operatingSystem\<close> child and
  the element its private address is read from, a node is returned, whatever the
  \<^verbatim>\<open>started\<close> field holds and also without one, and its state is as said.
\<close>

theorem to_node_state_from_started:
  "(to_node ns ii element = Inr n \<longrightarrow>
      state n = (if spec_field ns ''started'' element = Some ''true''
                 then RUNNING else TERMINATED) \<and>
      state n \<noteq> REBOOTING \<and> state n \<noteq> PENDING \<and> state n \<noteq> UNKNOWN) \<and>
   (spec_field ns ''cpuCount'' element = Some (spec_decimal k) \<and>
    spec_field ns ''memoryGb'' element = Some (spec_decimal j) \<and>
    ET_find [clark ns ''operatingSystem''] element = Some os \<and>
    (if ET_find [clark ns ''networkInfo''] element \<noteq> None
     then ET_find [clark ns ''networkInfo'', clark ns ''primaryNic''] element
     else ET_find [clark ns ''nic''] element) = Some nic \<longrightarrow>
      (\<exists>m. to_node ns ii element = Inr m \<and>
         state m = (if spec_field ns ''started'' element = Some ''true''
                    then RUNNING else TERMINATED)))"
proof (intro conjI impI)
  assume "to_node ns ii element = Inr n"
  from to_node_InrD(1) [OF this]
  have s: "state n = (if spec_field ns ''started'' element = Some ''true''
                      then RUNNING else TERMINATED)"
    by (simp add: findtext_started)
  then show "state n = (if spec_field ns ''started'' element = Some ''true''
                        then RUNNING else TERMINATED)" .
  from s show "state n \<noteq> REBOOTING" "state n \<noteq> PENDING" "state n \<noteq> UNKNOWN"
    by simp_all
next
  assume "spec_field ns ''cpuCount'' element = Some (spec_decimal k) \<and>
    spec_field ns ''memoryGb'' element = Some (spec_decimal j) \<and>
    ET_find [clark ns ''operatingSystem''] element = Some os \<and>
    (if ET_find [clark ns ''networkInfo''] element \<noteq> None
     then ET_find [clark ns ''networkInfo'', clark ns ''primaryNic''] element
     else ET_find [clark ns ''nic''] element) = Some nic"
  with to_node_mapped_decimal [of ns element k j os nic ii]
  show "\<exists>m. to_node ns ii element = Inr m \<and>
         state m = (if spec_field ns ''started'' element = Some ''true''
                    then RUNNING else TERMINATED)"
    by blast
qed

theorem to_node_state_from_started_witness:
  "(\<exists>m. to_node ''urn:t'' ascii_only (sample_server_started (Some ''true'')) = Inr m \<and>
        state m = RUNNING) \<and>
   (\<exists>m. to_node ''urn:t'' ascii_only (sample_server_started (Some ''false'')) = Inr m \<and>
        state m = TERMINATED) \<and>
   (\<exists>m. to_node ''urn:t'' ascii_only (sample_server_started (Some ''True'')) = Inr m \<and>
        state m = TERMINATED) \<and>
   (\<exists>m. to_node ''urn:t'' ascii_only (sample_server_started None) = Inr m \<and>
        state m = TERMINATED)"
proof -
  have "\<exists>m. to_node ''urn:t'' ascii_only (sample_server_started t) = Inr m \<and>
            state m = (if t = Some ''true'' then RUNNING else TERMINATED)" for t
    using to_node_state_from_started
            [where ns = "''urn:t''" and ii = ascii_only and element = "sample_server_started t"
               and n = sample_node and k = 12 and j = 64
               and os = "Element ''{urn:t}operatingSystem''
                           [(''id'', ''RHEL664''), (''family'', ''UNIX'')] None []"
               and nic = "Element ''{urn:t}nic'' [(''privateIpv4'', ''10.0.0.8'')] None []"]
    unfolding sample_decimals
    by (cases t)
      (simp_all add: sample_server_started_def spec_field_def clark_def ET_find_def)
  from this [of "Some ''true''"] this [of "Some ''false''"] this [of "Some ''True''"]
    this [of None]
  show ?thesis
    by simp
qed



subsection \<open>Resolving a location\<close>

lemma filter_first_find:
  "filter_first i locations =
     (case List.find (\<lambda>x. Some (location_id x) = i) locations of
        None \<Rightarrow> Inl IndexError
      | Some l \<Rightarrow> Inr l)"
  by (simp add: filter_first_def find_filter_case split: list.splits)

text \<open>
  C6, as the code has it. Resolving an identifier against a list of locations returns
  the first location of the list whose id is the identifier when there is one (the
  only one when just one matches), and raises \<^verbatim>\<open>IndexError\<close> when no location of
  the list matches.
\<close>

theorem filter_first_match_or_IndexError:
  "filter_first i locations =
     (case List.find (\<lambda>x. Some (location_id x) = i) locations of
        None \<Rightarrow> Inl IndexError
      | Some l \<Rightarrow> Inr l) \<and>
   ((\<exists>l \<in> set locations. Some (location_id l) = i) \<longrightarrow>
      (\<exists>l. filter_first i locations = Inr l \<and> l \<in> set locations \<and> Some (location_id l) = i)) \<and>
   (\<forall>l. filter (\<lambda>x. Some (location_id x) = i) locations = [l] \<longrightarrow> filter_first i locations = Inr l) \<and>
   ((\<forall>l \<in> set locations. Some (location_id l) \<noteq> i) \<longrightarrow> filter_first i locations = Inl IndexError)"
proof (intro conjI)
  show "filter_first i locations =
     (case List.find (\<lambda>x. Some (location_id x) = i) locations of
        None \<Rightarrow> Inl IndexError
      | Some l \<Rightarrow> Inr l)"
    by (rule filter_first_find)
  show "(\<exists>l \<in> set locations. Some (location_id l) = i) \<longrightarrow>
      (\<exists>l. filter_first i locations = Inr l \<and> l \<in> set locations \<and> Some (location_id l) = i)"
  proof
    assume "\<exists>l \<in> set locations. Some (location_id l) = i"
    then have "filter (\<lambda>x. Some (location_id x) = i) locations \<noteq> []"
      by (auto simp: filter_empty_conv)
    then obtain l ls where ls: "filter (\<lambda>x. Some (location_id x) = i) locations = l # ls"
      by (cases "filter (\<lambda>x. Some (location_id x) = i) locations") auto
    then have "l \<in> set (filter (\<lambda>x. Some (location_id x) = i) locations)"
      by simp
    then have "l \<in> set locations \<and> Some (location_id l) = i"
      by simp
    with ls show "\<exists>l. filter_first i locations = Inr l \<and> l \<in> set locations \<and> Some (location_id l) = i"
      by (simp add: filter_first_def)
  qed
  show "\<forall>l. filter (\<lambda>x. Some (location_id x) = i) locations = [l] \<longrightarrow> filter_first i locations = Inr l"
    by (simp add: filter_first_def)
  show "(\<forall>l \<in> set locations. Some (location_id l) \<noteq> i) \<longrightarrow> filter_first i locations = Inl IndexError"
    by (simp add: filter_first_def filter_empty_conv)
qed

theorem filter_first_match_or_IndexError_witness:
  "filter_first (Some ''NA1'')
     [sample_location\<lparr>location_id := ''EU1''\<rparr>, sample_location,
      sample_location\<lparr>location_name := Some ''duplicate''\<rparr>] = Inr sample_location \<and>
   filter_first (Some ''AU1'') [sample_location] = Inl IndexError"
  using filter_first_match_or_IndexError
          [of "Some ''NA1''" "[sample_location\<lparr>location_id := ''EU1''\<rparr>, sample_location,
                               sample_location\<lparr>location_name := Some ''duplicate''\<rparr>]"]
        filter_first_match_or_IndexError [of "Some ''AU1''" "[sample_location]"]
  by (simp add: sample_location_def)

theorem filter_first_not_found_counterexample:
  "filter_first (Some ''AU1'') [sample_location] = Inl IndexError \<and>
   fst (ex_get_location_by_id ''urn:t'' sample_datacenter_conn (Some ''AU1'') [])
     = Inl IndexError"
  by (simp add: filter_first_def sample_location_def ex_get_location_by_id_def
      sample_datacenter_conn_def
      list_locations_def bind_def send_def return_def lift_def raise_def to_locations_def
      to_location_def new_NodeLocation_def str_def sample_datacenters_def fixxpath_def get_def)

text \<open>
  C10. \<^verbatim>\<open>ex_get_location_by_id(None)\<close> returns \<^verbatim>\<open>None\<close> and sends nothing. For any
  other identifier the locations are requested once and the identifier is resolved
  against the list that comes back.
\<close>

theorem ex_get_location_by_id_None_sends_nothing:
  "ex_get_location_by_id ns conn None sent = (Inr None, sent) \<and>
   ex_get_location_by_id ns conn (Some i) sent =
     (case conn sent spec_list_locations_request of
        Inl e \<Rightarrow> (Inl e, sent @ [spec_list_locations_request])
      | Inr object \<Rightarrow>
          (map_sum id Some (filter_first (Some i) (to_locations ns object)),
           sent @ [spec_list_locations_request]))"
  by (simp add: ex_get_location_by_id_def list_locations_def spec_list_locations_request_def
      bind_def send_def return_def lift_def raise_def split: sum.splits)

theorem ex_get_location_by_id_None_witness:
  "ex_get_location_by_id ''urn:t'' (\<lambda>sent r. Inr sample_datacenters) None [] = (Inr None, []) \<and>
   ex_get_location_by_id ''urn:t'' (\<lambda>sent r. Inr sample_datacenters) (Some ''NA1'') [] =
     (Inr (Some sample_location), [spec_list_locations_request])"
  using ex_get_location_by_id_None_sends_nothing
          [of "''urn:t''" "\<lambda>sent r. Inr sample_datacenters" "[]" "''NA1''"]
  by (simp add: filter_first_def to_locations_def to_location_def new_NodeLocation_def
      str_def sample_datacenters_def
      sample_location_def fixxpath_def findtext_def ET_findtext_def ET_find_def get_def)

subsection \<open>Construction\<close>

text \<open>
  C8. A region that is not a key of \<^verbatim>\<open>API_ENDPOINTS\<close> makes the constructor raise
  \<^verbatim>\<open>ValueError\<close> at once: nothing is sent and the base constructor is not reached.
  For a region that is a key, the object handed to the base constructor has that
  region's endpoint as its \<^verbatim>\<open>selected_region\<close>.
\<close>

theorem init_region:
  "(region' \<notin> dom API_ENDPOINTS \<longrightarrow>
      init API_ENDPOINTS NodeDriver_init key' secret' secure' host' port' api_version' region'
        sent = (Inl (ValueError (''Invalid region: '' @ region')), sent)) \<and>
   (\<forall>endpoint. API_ENDPOINTS region' = Some endpoint \<longrightarrow>
      init API_ENDPOINTS NodeDriver_init key' secret' secure' host' port' api_version' region'
        sent =
      NodeDriver_init
        \<lparr>key = key', secret = secret', secure = secure', host = host', port = port',
         api_version = api_version', region = region', selected_region = endpoint\<rparr> sent)"
  by (auto simp: init_def raise_def dom_def)

theorem init_region_witness:
  "''dd-xx'' \<notin> dom [''dd-na'' \<mapsto> ''api-na.dimensiondata.com''] \<and>
   init [''dd-na'' \<mapsto> ''api-na.dimensiondata.com''] return ''user'' None True None None None
     ''dd-xx'' [] = (Inl (ValueError ''Invalid region: dd-xx''), []) \<and>
   map_sum id selected_region
     (fst (init [''dd-na'' \<mapsto> ''api-na.dimensiondata.com''] return ''user'' None True None None
             None ''dd-na'' [])) = Inr ''api-na.dimensiondata.com''"
  using init_region [of "''dd-xx''" "[''dd-na'' \<mapsto> ''api-na.dimensiondata.com'']" return
                        "''user''" None True None None None "[]"]
        init_region [of "''dd-na''" "[''dd-na'' \<mapsto> ''api-na.dimensiondata.com'']" return
                        "''user''" None True None None None "[]"]
  by (simp add: return_def)

end
